theory Spec2Isabelle
  imports Complex_Main
begin

section \<open>Shared conventions\<close>

text \<open>
  The accommodation price crawler is a Python service (FastAPI handlers in \<open>main.py\<close>, the
  pydantic models of \<open>models.py\<close>, the Redis/Mongo gateway of \<open>database.py\<close>, the fan-out
  of \<open>crawler_manager.py\<close> and the crawlers under \<open>crawlers/\<close>). Every Python exception is a
  value here: a function that may raise returns \<open>exn + 'a\<close> with \<open>Inl\<close> the exception, a
  \<open>try/except Exception\<close> is the case distinction on that sum. An exception is represented by
  its message text, a \<open>datetime\<close> by a number of seconds, a Python \<open>float\<close> that is only
  stored or compared with a constant by a real number.
\<close>

type_synonym exn = string
type_synonym datetime = nat

section \<open>models.py\<close>

subsection \<open>Dates\<close>

text \<open>
  \<open>datetime.date\<close>: year, month and day; Python orders dates lexicographically on that
  triple, and \<open>str(d)\<close> is \<open>d.isoformat()\<close>, the text \<open>YYYY-MM-DD\<close> with leading zeros.
\<close>

datatype date = Date (year: nat) (month: nat) (day: nat)

definition date_le :: "date \<Rightarrow> date \<Rightarrow> bool" where
  "date_le a b =
     (year a < year b \<or> (year a = year b \<and>
        (month a < month b \<or> (month a = month b \<and> day a \<le> day b))))"

definition digit :: "nat \<Rightarrow> char" where
  "digit n = ''0123456789'' ! (n mod 10)"

definition isoformat :: "date \<Rightarrow> string" where
  "isoformat d =
     [digit (year d div 1000), digit (year d div 100), digit (year d div 10), digit (year d)]
     @ ''-'' @ [digit (month d div 10), digit (month d)]
     @ ''-'' @ [digit (day d div 10), digit (day d)]"

subsection \<open>PriceRequest and its validators\<close>

record price_request =
  req_hotel_name :: string
  req_checkin_date :: date
  req_checkout_date :: date
  req_city :: string
  req_state :: "string option"
  req_country :: string
  req_latitude :: "real option"
  req_longitude :: "real option"

text \<open>
  What a client submits, after pydantic has parsed each field on its own: a date field that
  is missing or does not parse is \<open>None\<close> (and is then not among the validated \<open>values\<close>).
\<close>

record price_request_input =
  in_hotel_name :: string
  in_checkin_date :: "date option"
  in_checkout_date :: "date option"
  in_city :: string
  in_state :: "string option"
  in_country :: string
  in_latitude :: "real option"
  in_longitude :: "real option"

text \<open>
  \<open>checkout_after_checkin(cls, v, values)\<close>: the second argument is the entry of
  \<open>checkin_date\<close> in \<open>values\<close>, absent when that field failed.
\<close>

definition checkout_after_checkin :: "date \<Rightarrow> date option \<Rightarrow> exn + date" where
  "checkout_after_checkin v checkin =
     (case checkin of
        Some c \<Rightarrow> if date_le v c then Inl ''Checkout date must be after checkin date'' else Inr v
      | None \<Rightarrow> Inr v)"

definition validate_latitude :: "real option \<Rightarrow> exn + real option" where
  "validate_latitude v =
     (case v of
        Some x \<Rightarrow> if x < - 90 \<or> x > 90 then Inl ''Latitude must be between -90 and 90''
                  else Inr v
      | None \<Rightarrow> Inr v)"

definition validate_longitude :: "real option \<Rightarrow> exn + real option" where
  "validate_longitude v =
     (case v of
        Some x \<Rightarrow> if x < - 180 \<or> x > 180 then Inl ''Longitude must be between -180 and 180''
                  else Inr v
      | None \<Rightarrow> Inr v)"

definition errors_of :: "exn + 'a \<Rightarrow> exn list" where
  "errors_of r = (case r of Inl e \<Rightarrow> [e] | Inr _ \<Rightarrow> [])"

text \<open>
  Constructing a \<open>PriceRequest\<close>: the fields are validated in declaration order, every
  failure is collected, and the constructor raises a \<open>ValidationError\<close> carrying them when
  there is one.
\<close>

definition PriceRequest :: "price_request_input \<Rightarrow> exn list + price_request" where
  "PriceRequest i =
     (let e_in = (case in_checkin_date i of None \<Rightarrow> [''checkin_date: invalid date''] | Some _ \<Rightarrow> []);
          e_out = (case in_checkout_date i of
                     None \<Rightarrow> [''checkout_date: invalid date'']
                   | Some v \<Rightarrow> errors_of (checkout_after_checkin v (in_checkin_date i)));
          errs = e_in @ e_out @ errors_of (validate_latitude (in_latitude i))
                   @ errors_of (validate_longitude (in_longitude i))
      in case (in_checkin_date i, in_checkout_date i) of
           (Some cin, Some cout) \<Rightarrow>
             if errs = [] then
               Inr \<lparr> req_hotel_name = in_hotel_name i, req_checkin_date = cin,
                     req_checkout_date = cout, req_city = in_city i, req_state = in_state i,
                     req_country = in_country i, req_latitude = in_latitude i,
                     req_longitude = in_longitude i \<rparr>
             else Inl errs
         | _ \<Rightarrow> Inl errs)"

subsection \<open>CacheKey\<close>

record cache_key =
  ck_hotel_name :: string
  ck_city :: string
  ck_country :: string
  ck_checkin_date :: date
  ck_checkout_date :: date
  ck_state :: "string option"

text \<open>
  \<open>to_key\<close>: the state part is added when \<open>self.state\<close> is truthy, that is neither
  \<open>None\<close> nor the empty string.
\<close>

definition state_part :: "string option \<Rightarrow> string" where
  "state_part state = (case state of
                         Some s \<Rightarrow> if s \<noteq> [] then '':'' @ s else []
                       | None \<Rightarrow> [])"

definition to_key :: "cache_key \<Rightarrow> string" where
  "to_key k =
     ''prices:'' @ ck_hotel_name k @ '':'' @ ck_city k @ '':'' @ ck_country k @ '':''
       @ isoformat (ck_checkin_date k) @ '':'' @ isoformat (ck_checkout_date k)
       @ state_part (ck_state k)"

text \<open>\<open>DatabaseService.get_cache_key\<close> (database.py) builds the \<open>CacheKey\<close> and renders it.\<close>

definition get_cache_key ::
  "string \<Rightarrow> string \<Rightarrow> string \<Rightarrow> date \<Rightarrow> date \<Rightarrow> string option \<Rightarrow> string" where
  "get_cache_key hotel_name city country checkin_date checkout_date state =
     to_key \<lparr> ck_hotel_name = hotel_name, ck_city = city, ck_country = country,
              ck_checkin_date = checkin_date, ck_checkout_date = checkout_date,
              ck_state = state \<rparr>"

text \<open>The key under which \<open>search_properties\<close> looks a request up.\<close>

definition request_cache_key :: "price_request \<Rightarrow> string" where
  "request_cache_key r =
     get_cache_key (req_hotel_name r) (req_city r) (req_country r)
       (req_checkin_date r) (req_checkout_date r) (req_state r)"

subsection \<open>SearchResult\<close>

record search_result =
  sr_platform :: string
  sr_property_name :: string
  sr_price :: real
  sr_currency :: string
  sr_availability :: bool
  sr_url :: "string option"
  sr_rating :: "real option"
  sr_review_count :: "nat option"
  sr_amenities :: "string list option"
  sr_image_url :: "string option"
  sr_fetched_at :: datetime

section \<open>config.py\<close>

record platform_config =
  cfg_enabled :: bool
  cfg_delay_between_requests :: nat
  cfg_max_retries :: nat

definition PLATFORMS :: "(string \<times> platform_config) list" where
  "PLATFORMS =
     [(''airbnb'', \<lparr>cfg_enabled = True, cfg_delay_between_requests = 2, cfg_max_retries = 3\<rparr>),
      (''booking'', \<lparr>cfg_enabled = True, cfg_delay_between_requests = 3, cfg_max_retries = 3\<rparr>),
      (''expedia'', \<lparr>cfg_enabled = True, cfg_delay_between_requests = 2, cfg_max_retries = 3\<rparr>),
      (''hotels'', \<lparr>cfg_enabled = True, cfg_delay_between_requests = 2, cfg_max_retries = 3\<rparr>),
      (''tripadvisor'', \<lparr>cfg_enabled = True, cfg_delay_between_requests = 3, cfg_max_retries = 3\<rparr>),
      (''vrbo'', \<lparr>cfg_enabled = True, cfg_delay_between_requests = 2, cfg_max_retries = 3\<rparr>)]"

definition CACHE_TTL :: nat where
  "CACHE_TTL = 3600"

definition MAX_PRICE_RESULTS_PER_PLATFORM :: nat where
  "MAX_PRICE_RESULTS_PER_PLATFORM = 10"

definition get_platform_config :: "string \<Rightarrow> platform_config option" where
  "get_platform_config platform = map_of PLATFORMS platform"

section \<open>crawlers/base\_crawler.py\<close>

text \<open>
  The network is an input of the model: what the \<open>attempt\<close>-th pass through the \<open>try\<close>
  block of \<open>make_request\<close> meets, either an exception or a response with its status and
  with what reading its text will give.
\<close>

record http_response =
  resp_status :: nat
  resp_text :: "exn + string"

datatype attempt_outcome = Raised exn | Responded http_response

text \<open>
  \<open>make_request\<close>: the \<open>for attempt in range(max_retries)\<close> loop, from \<open>attempt\<close> on. The
  result carries the sleeps made so far (the plain delay before every attempt but the first,
  \<open>(attempt + 1) * delay * 2\<close> after a 429) and either the raised exception or the returned
  value, \<open>None\<close> when the loop runs out.
\<close>

function make_request_loop ::
  "nat \<Rightarrow> nat \<Rightarrow> (nat \<Rightarrow> attempt_outcome) \<Rightarrow> nat \<Rightarrow> nat list
     \<Rightarrow> nat list \<times> (exn + http_response option)" where
  "make_request_loop max_retries delay net attempt sleeps =
     (if attempt < max_retries then
        (let sleeps1 = (if attempt > 0 then sleeps @ [delay] else sleeps)
         in case net attempt of
              Raised e \<Rightarrow>
                if attempt = max_retries - 1 then (sleeps1, Inl e)
                else make_request_loop max_retries delay net (Suc attempt) sleeps1
            | Responded response \<Rightarrow>
                if resp_status response = 200 then (sleeps1, Inr (Some response))
                else if resp_status response = 429 then
                  make_request_loop max_retries delay net (Suc attempt)
                    (sleeps1 @ [(attempt + 1) * delay * 2])
                else make_request_loop max_retries delay net (Suc attempt) sleeps1)
      else (sleeps, Inr None))"
  by pat_completeness auto
termination
  by (relation "measure (\<lambda>(max_retries, delay, net, attempt, sleeps). max_retries - attempt)")
     auto

declare make_request_loop.simps [simp del]

text \<open>
  The retry settings come from the platform's configuration, with the defaults of
  \<open>self.config.get\<close> (3 retries, 2 seconds).
\<close>

definition make_request ::
  "platform_config option \<Rightarrow> (nat \<Rightarrow> attempt_outcome) \<Rightarrow> exn + http_response option" where
  "make_request config net =
     (let max_retries = (case config of Some c \<Rightarrow> cfg_max_retries c | None \<Rightarrow> 3);
          delay = (case config of Some c \<Rightarrow> cfg_delay_between_requests c | None \<Rightarrow> 2)
      in snd (make_request_loop max_retries delay net 0 []))"

definition get_page_content ::
  "platform_config option \<Rightarrow> (nat \<Rightarrow> attempt_outcome) \<Rightarrow> exn + string option" where
  "get_page_content config net =
     (case make_request config net of
        Inl e \<Rightarrow> Inl e
      | Inr None \<Rightarrow> Inr None
      | Inr (Some response) \<Rightarrow>
          (case resp_text response of Inl e \<Rightarrow> Inl e | Inr content \<Rightarrow> Inr (Some content)))"

text \<open>
  \<open>get_page_soup\<close>: an empty page is falsy and gives \<open>None\<close>; the HTML parser
  (\<open>BeautifulSoup(content, 'lxml')\<close>) is a parameter.
\<close>

definition get_page_soup ::
  "(string \<Rightarrow> 'soup) \<Rightarrow> platform_config option \<Rightarrow> (nat \<Rightarrow> attempt_outcome)
     \<Rightarrow> exn + 'soup option" where
  "get_page_soup BeautifulSoup config net =
     (case get_page_content config net of
        Inl e \<Rightarrow> Inl e
      | Inr None \<Rightarrow> Inr None
      | Inr (Some content) \<Rightarrow> if content \<noteq> [] then Inr (Some (BeautifulSoup content)) else Inr None)"

text \<open>\<open>_clean_text\<close>: \<open>" ".join(text.strip().split())\<close>, splitting at runs of whitespace.\<close>

definition isspace :: "char \<Rightarrow> bool" where
  "isspace c = (c \<in> set [CHR '' '', CHR 0x09, CHR 0x0A, CHR 0x0B, CHR 0x0C, CHR 0x0D,
                          CHR 0x1C, CHR 0x1D, CHR 0x1E, CHR 0x1F])"

fun split_ws :: "string \<Rightarrow> string \<Rightarrow> string list" where
  "split_ws [] cur = (if cur = [] then [] else [cur])"
| "split_ws (c # cs) cur =
     (if isspace c then (if cur = [] then split_ws cs [] else cur # split_ws cs [])
      else split_ws cs (cur @ [c]))"

fun join_space :: "string list \<Rightarrow> string" where
  "join_space [] = []"
| "join_space [w] = w"
| "join_space (w # ws) = w @ '' '' @ join_space ws"

definition clean_text :: "string \<Rightarrow> string" where
  "clean_text text = (if text = [] then [] else join_space (split_ws text []))"

section \<open>crawlers/airbnb\_crawler.py\<close>

text \<open>
  A parsed search page is what its two \<open>find_all\<close> queries return: the cards found by
  \<open>data-testid\<close> and the ones found by the class pattern. A listing element is what
  \<open>_extract_listing_data\<close> reads off it: whether one of the lookups raises, the text of
  the name element, the price \<open>_extract_price\<close> finds, and the optional rest.
\<close>

record listing =
  el_raises :: bool
  el_name :: "string option"
  el_price :: "real option"
  el_rating :: "real option"
  el_review_count :: "nat option"
  el_href :: "string option"
  el_img_src :: "string option"
  el_amenities :: "string list"

record soup =
  soup_cards :: "listing list"
  soup_by_class :: "listing list"

text \<open>
  \<open>_extract_listing_data\<close>: its own \<open>try/except\<close> turns every exception into \<open>None\<close>; a
  listing without a price (or with the falsy price 0) gives \<open>None\<close> too.
\<close>

definition extract_listing_data :: "datetime \<Rightarrow> listing \<Rightarrow> search_result option" where
  "extract_listing_data now listing_element =
     (if el_raises listing_element then None
      else case el_price listing_element of
             None \<Rightarrow> None
           | Some price \<Rightarrow>
               if price = 0 then None
               else
                 (let amenities = filter (\<lambda>t. t \<noteq> []) (map clean_text (el_amenities listing_element))
                  in Some \<lparr> sr_platform = ''airbnb'',
                            sr_property_name =
                              (case el_name listing_element of
                                 Some t \<Rightarrow> clean_text t | None \<Rightarrow> ''Unknown Property''),
                            sr_price = price,
                            sr_currency = ''USD'',
                            sr_availability = True,
                            sr_url =
                              (case el_href listing_element of
                                 Some h \<Rightarrow> if h \<noteq> [] then Some (''https://www.airbnb.com'' @ h) else None
                               | None \<Rightarrow> None),
                            sr_rating = el_rating listing_element,
                            sr_review_count = el_review_count listing_element,
                            sr_amenities = (if amenities \<noteq> [] then Some amenities else None),
                            sr_image_url = el_img_src listing_element,
                            sr_fetched_at = now \<rparr>))"

text \<open>The loop over the listings: a listing that yields nothing is passed over.\<close>

fun collect_listings :: "datetime \<Rightarrow> listing list \<Rightarrow> search_result list \<Rightarrow> search_result list" where
  "collect_listings now [] results = results"
| "collect_listings now (l # ls) results =
     (case extract_listing_data now l of
        Some result \<Rightarrow> collect_listings now ls (results @ [result])
      | None \<Rightarrow> collect_listings now ls results)"

text \<open>
  The body of the outer \<open>try\<close> of \<open>search_properties\<close>. \<open>max_results\<close> is what evaluating
  \<open>Config.MAX_PRICE_RESULTS_PER_PLATFORM\<close> gives inside the crawler's module: the number, or
  the exception of the name lookup.
\<close>

definition airbnb_search_body ::
  "exn + nat \<Rightarrow> (string \<Rightarrow> soup) \<Rightarrow> datetime \<Rightarrow> (nat \<Rightarrow> attempt_outcome)
     \<Rightarrow> exn + search_result list" where
  "airbnb_search_body max_results BeautifulSoup now net =
     (case get_page_soup BeautifulSoup (get_platform_config ''airbnb'') net of
        Inl e \<Rightarrow> Inl e
      | Inr None \<Rightarrow> Inr []
      | Inr (Some page) \<Rightarrow>
          (let listings = (if soup_cards page \<noteq> [] then soup_cards page else soup_by_class page)
           in case max_results of
                Inl e \<Rightarrow> Inl e
              | Inr n \<Rightarrow> Inr (collect_listings now (take n listings) [])))"

text \<open>
  \<open>AirbnbCrawler.search_properties\<close>: the outer \<open>except Exception\<close> logs and falls through
  to \<open>return results\<close>; wherever the body can raise, \<open>results\<close> is still empty.
\<close>

definition airbnb_search_properties ::
  "exn + nat \<Rightarrow> (string \<Rightarrow> soup) \<Rightarrow> datetime \<Rightarrow> (nat \<Rightarrow> attempt_outcome)
     \<Rightarrow> exn + search_result list" where
  "airbnb_search_properties max_results BeautifulSoup now net =
     (case airbnb_search_body max_results BeautifulSoup now net of
        Inl e \<Rightarrow> Inr []
      | Inr results \<Rightarrow> Inr results)"

text \<open>
  \<open>airbnb_crawler.py\<close> imports \<open>BaseCrawler\<close> and \<open>SearchResult\<close> only, so the name
  \<open>Config\<close> is unbound where line 57 evaluates it.
\<close>

definition airbnb_Config_lookup :: "exn + nat" where
  "airbnb_Config_lookup = Inl ''NameError: name Config is not defined''"

section \<open>crawler\_manager.py\<close>

record search_params =
  sp_hotel_name :: string
  sp_city :: string
  sp_checkin_date :: string
  sp_checkout_date :: string
  sp_guests :: nat
  sp_state :: "string option"
  sp_country :: string
  sp_latitude :: "real option"
  sp_longitude :: "real option"

text \<open>
  What one adapter does with the search parameters, seen from \<open>_search_platform\<close>: the
  \<open>async with crawler\<close> block raises, or \<open>search_properties\<close> returns a value, which the
  fan-out then tests with \<open>isinstance\<close>.
\<close>

datatype py_value = PyList "search_result list" | PyException exn | PyOther

datatype adapter_outcome = Raise exn | Return py_value

type_synonym crawler = "search_params \<Rightarrow> adapter_outcome"

text \<open>\<open>self.crawlers\<close>: a dict, in insertion order.\<close>

record crawler_manager =
  crawlers :: "(string \<times> crawler) list"

definition search_platform :: "string \<Rightarrow> crawler \<Rightarrow> search_params \<Rightarrow> py_value" where
  "search_platform platform crawler params =
     (case crawler params of
        Raise e \<Rightarrow> PyList []
      | Return results \<Rightarrow> results)"

text \<open>The loop over the gathered results, \<open>all_results\<close> being extended in place.\<close>

fun process_results :: "py_value list \<Rightarrow> search_result list \<Rightarrow> search_result list" where
  "process_results [] all_results = all_results"
| "process_results (PyException e # rest) all_results = process_results rest all_results"
| "process_results (PyList result # rest) all_results = process_results rest (all_results @ result)"
| "process_results (PyOther # rest) all_results = process_results rest all_results"

definition request_params :: "price_request \<Rightarrow> search_params" where
  "request_params request =
     \<lparr> sp_hotel_name = req_hotel_name request,
       sp_city = req_city request,
       sp_checkin_date = isoformat (req_checkin_date request),
       sp_checkout_date = isoformat (req_checkout_date request),
       sp_guests = 1,
       sp_state = req_state request,
       sp_country = req_country request,
       sp_latitude = req_latitude request,
       sp_longitude = req_longitude request \<rparr>"

text \<open>
  \<open>search_all_platforms\<close>: one task per crawler, gathered in the order of the dict (with
  \<open>return_exceptions=True\<close>), then processed in that order.
\<close>

definition search_all_platforms :: "crawler_manager \<Rightarrow> price_request \<Rightarrow> search_result list" where
  "search_all_platforms self request =
     (let params = request_params request;
          tasks = map (\<lambda>(platform, crawler). search_platform platform crawler params) (crawlers self)
      in if tasks \<noteq> [] then process_results tasks [] else [])"

definition get_available_platforms :: "crawler_manager \<Rightarrow> string list" where
  "get_available_platforms self = map fst (crawlers self)"

section \<open>database.py\<close>

record crawled_price_record =
  rec_hotel_name :: string
  rec_city :: string
  rec_country :: string
  rec_checkin_date :: date
  rec_checkout_date :: date
  rec_state :: "string option"
  rec_latitude :: "real option"
  rec_longitude :: "real option"
  rec_platform_prices :: "(string \<times> search_result list) list"
  rec_total_results :: nat
  rec_crawled_at :: datetime
  rec_job_id :: string

text \<open>
  The two engines behind the gateway are modelled by their primitives. A Redis value is a
  text: the JSON that \<open>_serialize_for_cache\<close> writes for a record (and that
  \<open>CrawledPriceRecord.parse_raw\<close> reads back), or any other text; it is stored with the
  instant at which it expires. A Mongo document carries the fields that the query of
  \<open>get_prices_from_mongodb\<close> filters and sorts on, and what the conversion of lines 189-195
  makes of the document (\<open>None\<close> when it raises). The driver's encoding of
  \<open>price_record.dict()\<close> for \<open>insert_one\<close> is a field of the service (\<open>None\<close> when the
  driver rejects the document).
\<close>

datatype cached_text = Json crawled_price_record | Text string

record mongo_doc =
  doc_hotel_name :: string
  doc_city :: string
  doc_country :: string
  doc_checkin_date :: string
  doc_checkout_date :: string
  doc_state :: "string option"
  doc_crawled_at :: nat
  doc_converted :: "crawled_price_record option"

record database_service =
  redis_up :: bool
  redis_entries :: "string \<rightharpoonup> cached_text \<times> datetime"
  mongo_up :: bool
  mongo_docs :: "mongo_doc list"
  mongo_encode :: "crawled_price_record \<Rightarrow> mongo_doc option"

definition redis_get :: "database_service \<Rightarrow> datetime \<Rightarrow> string \<Rightarrow> exn + cached_text option" where
  "redis_get self now key =
     (if \<not> redis_up self then Inl ''redis.exceptions.ConnectionError''
      else case redis_entries self key of
             None \<Rightarrow> Inr None
           | Some (v, expires_at) \<Rightarrow> if now < expires_at then Inr (Some v) else Inr None)"

definition redis_setex ::
  "database_service \<Rightarrow> datetime \<Rightarrow> string \<Rightarrow> nat \<Rightarrow> cached_text \<Rightarrow> exn + database_service" where
  "redis_setex self now key ttl v =
     (if \<not> redis_up self then Inl ''redis.exceptions.ConnectionError''
      else Inr (self\<lparr>redis_entries := (redis_entries self)(key \<mapsto> (v, now + ttl))\<rparr>))"

definition deserialize_from_cache :: "cached_text \<Rightarrow> exn + crawled_price_record" where
  "deserialize_from_cache data =
     (case data of Json r \<Rightarrow> Inr r | Text t \<Rightarrow> Inl ''pydantic.ValidationError'')"

definition truthy_text :: "cached_text \<Rightarrow> bool" where
  "truthy_text data = (case data of Json r \<Rightarrow> True | Text t \<Rightarrow> t \<noteq> [])"

text \<open>\<open>get_cached_prices\<close>: every exception is logged and becomes \<open>None\<close>.\<close>

definition get_cached_prices ::
  "database_service \<Rightarrow> datetime \<Rightarrow> string \<Rightarrow> string \<Rightarrow> string \<Rightarrow> date \<Rightarrow> date \<Rightarrow> string option
     \<Rightarrow> crawled_price_record option" where
  "get_cached_prices self now hotel_name city country checkin_date checkout_date state =
     (let cache_key = get_cache_key hotel_name city country checkin_date checkout_date state
      in case redis_get self now cache_key of
           Inl e \<Rightarrow> None
         | Inr None \<Rightarrow> None
         | Inr (Some cached_data) \<Rightarrow>
             if truthy_text cached_data then
               (case deserialize_from_cache cached_data of Inl e \<Rightarrow> None | Inr r \<Rightarrow> Some r)
             else None)"

definition cache_prices ::
  "database_service \<Rightarrow> datetime \<Rightarrow> crawled_price_record \<Rightarrow> bool \<times> database_service" where
  "cache_prices self now price_record =
     (let cache_key = get_cache_key (rec_hotel_name price_record) (rec_city price_record)
                        (rec_country price_record) (rec_checkin_date price_record)
                        (rec_checkout_date price_record) (rec_state price_record)
      in case redis_setex self now cache_key CACHE_TTL (Json price_record) of
           Inl e \<Rightarrow> (False, self)
         | Inr self' \<Rightarrow> (True, self'))"

definition save_prices_to_mongodb ::
  "database_service \<Rightarrow> crawled_price_record \<Rightarrow> bool \<times> database_service" where
  "save_prices_to_mongodb self price_record =
     (if \<not> mongo_up self then (False, self)
      else case mongo_encode self price_record of
             None \<Rightarrow> (False, self)
           | Some d \<Rightarrow> (True, self\<lparr>mongo_docs := mongo_docs self @ [d]\<rparr>))"

text \<open>
  The filter of \<open>get_prices_from_mongodb\<close>: five fields always, the state only when it is
  truthy.
\<close>

definition query_matches ::
  "string \<Rightarrow> string \<Rightarrow> string \<Rightarrow> date \<Rightarrow> date \<Rightarrow> string option \<Rightarrow> mongo_doc \<Rightarrow> bool" where
  "query_matches hotel_name city country checkin_date checkout_date state d =
     (doc_hotel_name d = hotel_name \<and> doc_city d = city \<and> doc_country d = country
      \<and> doc_checkin_date d = isoformat checkin_date
      \<and> doc_checkout_date d = isoformat checkout_date
      \<and> (case state of
            Some s \<Rightarrow> if s \<noteq> [] then doc_state d = Some s else True
          | None \<Rightarrow> True))"

text \<open>
  \<open>find_one(query, sort=[("crawled_at", -1)])\<close>: the matching document with the greatest
  \<open>crawled_at\<close> (the earliest inserted among equals).
\<close>

fun newest :: "mongo_doc list \<Rightarrow> mongo_doc option \<Rightarrow> mongo_doc option" where
  "newest [] best = best"
| "newest (d # ds) best =
     (case best of
        None \<Rightarrow> newest ds (Some d)
      | Some b \<Rightarrow> if doc_crawled_at b < doc_crawled_at d then newest ds (Some d)
                  else newest ds best)"

definition find_one :: "database_service \<Rightarrow> (mongo_doc \<Rightarrow> bool) \<Rightarrow> exn + mongo_doc option" where
  "find_one self query =
     (if \<not> mongo_up self then Inl ''pymongo.errors.ServerSelectionTimeoutError''
      else Inr (newest (filter query (mongo_docs self)) None))"

definition get_prices_from_mongodb ::
  "database_service \<Rightarrow> string \<Rightarrow> string \<Rightarrow> string \<Rightarrow> date \<Rightarrow> date \<Rightarrow> string option
     \<Rightarrow> crawled_price_record option" where
  "get_prices_from_mongodb self hotel_name city country checkin_date checkout_date state =
     (case find_one self (query_matches hotel_name city country checkin_date checkout_date state) of
        Inl e \<Rightarrow> None
      | Inr None \<Rightarrow> None
      | Inr (Some result) \<Rightarrow> doc_converted result)"

text \<open>The grouping loop of \<open>save_search_results\<close> on the dict \<open>platform_prices\<close>.\<close>

fun group_by_platform ::
  "search_result list \<Rightarrow> (string \<times> search_result list) list \<Rightarrow> (string \<times> search_result list) list" where
  "group_by_platform [] platform_prices = platform_prices"
| "group_by_platform (result # rest) platform_prices =
     (let with_key = (if sr_platform result \<in> set (map fst platform_prices) then platform_prices
                      else platform_prices @ [(sr_platform result, [])])
      in group_by_platform rest
           (map (\<lambda>(k, v). if k = sr_platform result then (k, v @ [result]) else (k, v)) with_key))"

definition save_search_results ::
  "database_service \<Rightarrow> datetime \<Rightarrow> string \<Rightarrow> string \<Rightarrow> string \<Rightarrow> date \<Rightarrow> date \<Rightarrow> string option
     \<Rightarrow> real option \<Rightarrow> real option \<Rightarrow> string \<Rightarrow> search_result list \<Rightarrow> bool \<times> database_service" where
  "save_search_results self now hotel_name city country checkin_date checkout_date state
       latitude longitude job_id results =
     (let price_record =
            \<lparr> rec_hotel_name = hotel_name, rec_city = city, rec_country = country,
              rec_checkin_date = checkin_date, rec_checkout_date = checkout_date,
              rec_state = state, rec_latitude = latitude, rec_longitude = longitude,
              rec_platform_prices = group_by_platform results [],
              rec_total_results = length results, rec_crawled_at = now, rec_job_id = job_id \<rparr>;
          (mongo_success, self1) = save_prices_to_mongodb self price_record;
          (cache_success, self2) = cache_prices self1 now price_record
      in (mongo_success \<and> cache_success, self2))"

section \<open>main.py\<close>

text \<open>An entry of \<open>active_jobs\<close>; the last three keys are absent until they are written.\<close>

record job =
  job_status :: string
  job_progress :: real
  job_total_platforms :: nat
  job_completed_platforms :: nat
  job_results :: "search_result list"
  job_created_at :: datetime
  job_request :: price_request
  job_completed_at :: "datetime option"
  job_execution_time :: "real option"
  job_error :: "string option"

text \<open>
  A WebSocket connection: the job id of the path it was opened on (\<open>/ws/{job_id}\<close>), and
  whether \<open>send_text\<close> on it succeeds.
\<close>

record websocket =
  ws_id :: nat
  ws_job_id :: string
  ws_open :: bool

text \<open>
  The module's globals. \<open>uuid_calls\<close> is not a variable of the program: it counts the
  calls of \<open>generate_job_id\<close>, whose \<open>n\<close>-th result is given by a parameter \<open>uuid4\<close>.
\<close>

record app_state =
  st_crawler_manager :: "crawler_manager option"
  st_db_service :: "database_service option"
  active_connections :: "websocket list"
  active_jobs :: "string \<rightharpoonup> job"
  uuid_calls :: nat

datatype response =
    HTTPException nat string
  | RequestValidationError "exn list"
  | CachedResults datetime nat
  | JobStarted string
  | StoredPrices string crawled_price_record

text \<open>
  \<open>search_properties\<close> (POST /search) returns the response, the new globals and the
  background tasks it has added, each a call \<open>run_search_job(job_id, request)\<close>.
\<close>

definition search_properties ::
  "(nat \<Rightarrow> string) \<Rightarrow> datetime \<Rightarrow> app_state \<Rightarrow> price_request
     \<Rightarrow> response \<times> app_state \<times> (string \<times> price_request) list" where
  "search_properties uuid4 now s request =
     (case st_crawler_manager s of
        None \<Rightarrow> (HTTPException 503 ''Crawler manager not initialized'', s, [])
      | Some cm \<Rightarrow>
         (case st_db_service s of
            None \<Rightarrow> (HTTPException 503 ''Database service not initialized'', s, [])
          | Some db \<Rightarrow>
             (case get_cached_prices db now (req_hotel_name request) (req_city request)
                     (req_country request) (req_checkin_date request)
                     (req_checkout_date request) (req_state request) of
                Some cached_result \<Rightarrow>
                  (CachedResults (rec_crawled_at cached_result) (rec_total_results cached_result),
                   s, [])
              | None \<Rightarrow>
                  (let job_id = uuid4 (uuid_calls s);
                       new_job = \<lparr> job_status = ''pending'', job_progress = 0,
                                   job_total_platforms = length (get_available_platforms cm),
                                   job_completed_platforms = 0, job_results = [],
                                   job_created_at = now, job_request = request,
                                   job_completed_at = None, job_execution_time = None,
                                   job_error = None \<rparr>
                   in (JobStarted job_id,
                       s\<lparr>active_jobs := (active_jobs s)(job_id \<mapsto> new_job),
                         uuid_calls := Suc (uuid_calls s)\<rparr>,
                       [(job_id, request)])))))"

text \<open>
  The route as the framework runs it: the body is turned into a \<open>PriceRequest\<close> first, and
  the handler is called only when that succeeds.
\<close>

definition post_search ::
  "(nat \<Rightarrow> string) \<Rightarrow> datetime \<Rightarrow> app_state \<Rightarrow> price_request_input
     \<Rightarrow> response \<times> app_state \<times> (string \<times> price_request) list" where
  "post_search uuid4 now s body =
     (case PriceRequest body of
        Inl errs \<Rightarrow> (RequestValidationError errs, s, [])
      | Inr request \<Rightarrow> search_properties uuid4 now s request)"

text \<open>
  \<open>get_stored_prices\<close> (GET /prices/{hotel_name}): the cache, then the store. The two dates
  are what \<open>strptime\<close> makes of the query strings, \<open>None\<close> for a \<open>ValueError\<close>. The 404 is
  raised inside the \<open>try\<close>, whose last handler catches it and raises the 500.
\<close>

definition get_stored_prices ::
  "datetime \<Rightarrow> app_state \<Rightarrow> string \<Rightarrow> string \<Rightarrow> string \<Rightarrow> date option \<Rightarrow> date option
     \<Rightarrow> string option \<Rightarrow> response" where
  "get_stored_prices now s hotel_name city country checkin_date checkout_date state =
     (case st_db_service s of
        None \<Rightarrow> HTTPException 503 ''Database service not initialized''
      | Some db \<Rightarrow>
         (case (checkin_date, checkout_date) of
            (Some checkin, Some checkout) \<Rightarrow>
              (case get_cached_prices db now hotel_name city country checkin checkout state of
                 Some cached_result \<Rightarrow> StoredPrices ''cache'' cached_result
               | None \<Rightarrow>
                   (case get_prices_from_mongodb db hotel_name city country checkin checkout state of
                      Some mongo_result \<Rightarrow> StoredPrices ''mongodb'' mongo_result
                    | None \<Rightarrow> HTTPException 500 ''Internal server error''))
          | _ \<Rightarrow> HTTPException 400 ''Invalid date format. Use YYYY-MM-DD''))"

record job_result =
  jr_job_id :: string
  jr_search_criteria :: price_request
  jr_results :: "search_result list"
  jr_total_results :: nat
  jr_completed_at :: datetime
  jr_execution_time :: real

text \<open>\<open>get_job_results\<close> (GET /job/{job_id}/results), read at the instant \<open>now\<close>.\<close>

definition get_job_results :: "datetime \<Rightarrow> app_state \<Rightarrow> string \<Rightarrow> response + job_result" where
  "get_job_results now s job_id =
     (case active_jobs s job_id of
        None \<Rightarrow> Inl (HTTPException 404 ''Job not found'')
      | Some j \<Rightarrow>
          if job_status j \<noteq> ''completed'' then Inl (HTTPException 400 ''Job not completed yet'')
          else Inr \<lparr> jr_job_id = job_id, jr_search_criteria = job_request j,
                     jr_results = job_results j, jr_total_results = length (job_results j),
                     jr_completed_at = (case job_completed_at j of Some t \<Rightarrow> t | None \<Rightarrow> now),
                     jr_execution_time = (case job_execution_time j of Some t \<Rightarrow> t | None \<Rightarrow> 0) \<rparr>)"

text \<open>\<open>websocket_endpoint\<close>, up to the polling loop: the connection joins the global list.\<close>

definition websocket_accept :: "app_state \<Rightarrow> websocket \<Rightarrow> app_state" where
  "websocket_accept s ws = s\<lparr>active_connections := active_connections s @ [ws]\<rparr>"

record price_message =
  pm_group_id :: string
  pm_property_title :: string
  pm_city :: string
  pm_state :: "string option"
  pm_country :: string
  pm_latitude :: "real option"
  pm_longitude :: "real option"
  pm_platform :: string
  pm_currency :: string
  pm_amount :: real
  pm_availability :: bool
  pm_timestamp :: datetime
  pm_type :: string

definition make_price_message :: "string \<Rightarrow> price_request \<Rightarrow> search_result \<Rightarrow> price_message" where
  "make_price_message job_id request result =
     \<lparr> pm_group_id = job_id, pm_property_title = sr_property_name result,
       pm_city = req_city request, pm_state = req_state request,
       pm_country = req_country request, pm_latitude = req_latitude request,
       pm_longitude = req_longitude request, pm_platform = sr_platform result,
       pm_currency = sr_currency result, pm_amount = sr_price result,
       pm_availability = sr_availability result, pm_timestamp = sr_fetched_at result,
       pm_type = ''price_update'' \<rparr>"

text \<open>
  \<open>json.dumps(message_data)\<close> on the dict of a \<open>PriceMessage\<close>: \<open>dict()\<close> keeps the
  timestamp of the price data as a \<open>datetime\<close> object (the \<open>json_encoders\<close> of the model
  serve \<open>json()\<close> only), and the encoder of \<open>json.dumps\<close> raises \<open>TypeError\<close> on it.
\<close>

definition json_dumps :: "price_message \<Rightarrow> exn + string" where
  "json_dumps message_data = Inl ''TypeError: Object of type datetime is not JSON serializable''"

text \<open>
  What happens to one \<open>connection.send_text(json.dumps(message_data))\<close>: the text goes out,
  or the serialisation or the send raises and the \<open>except\<close> logs it.
\<close>

datatype send_event = Sent nat string | SendFailed nat exn

fun send_to_connections :: "websocket list \<Rightarrow> exn + string \<Rightarrow> send_event list" where
  "send_to_connections [] dumped = []"
| "send_to_connections (connection # rest) dumped =
     (case dumped of
        Inl e \<Rightarrow> SendFailed (ws_id connection) e
      | Inr text \<Rightarrow>
          if ws_open connection then Sent (ws_id connection) text
          else SendFailed (ws_id connection) ''WebSocket is not connected'')
     # send_to_connections rest dumped"

fun send_each ::
  "(price_message \<Rightarrow> exn + string) \<Rightarrow> websocket list \<Rightarrow> string \<Rightarrow> price_request
     \<Rightarrow> search_result list \<Rightarrow> send_event list" where
  "send_each dumps connections job_id request [] = []"
| "send_each dumps connections job_id request (result # rest) =
     send_to_connections connections (dumps (make_price_message job_id request result))
     @ send_each dumps connections job_id request rest"

text \<open>
  \<open>send_results_to_websockets\<close>, with the serialiser as the parameter \<open>dumps\<close>; the
  program's is \<open>json_dumps\<close>. The result is the log of the sends, in the order they are
  made.
\<close>

definition send_results_to_websockets ::
  "(price_message \<Rightarrow> exn + string) \<Rightarrow> app_state \<Rightarrow> string \<Rightarrow> search_result list
     \<Rightarrow> send_event list" where
  "send_results_to_websockets dumps s job_id results =
     (case active_jobs s job_id of
        None \<Rightarrow> []
      | Some j \<Rightarrow> send_each dumps (active_connections s) job_id (job_request j) results)"

definition update_job :: "app_state \<Rightarrow> string \<Rightarrow> (job \<Rightarrow> job) \<Rightarrow> app_state" where
  "update_job s job_id f =
     (case active_jobs s job_id of
        None \<Rightarrow> s
      | Some j \<Rightarrow> s\<lparr>active_jobs := (active_jobs s)(job_id \<mapsto> f j)\<rparr>)"

text \<open>
  \<open>run_search_job\<close>, as the list of the globals after each of its writes, the sends it made,
  and the exception that escapes it, if any. Inside the \<open>try\<close>, the first write raises
  \<open>KeyError\<close> when the job is unknown (and so does the handler), and the call on an unset
  \<open>crawler_manager\<close> raises \<open>AttributeError\<close>; the fan-out, the save and the broadcast
  catch their own exceptions. \<open>start_time\<close> and \<open>now\<close> are the clock at the start and at
  the later reads.
\<close>

record job_run =
  run_states :: "app_state list"
  run_sent :: "send_event list"
  run_escaped :: "exn option"

definition run_search_job ::
  "(price_message \<Rightarrow> exn + string) \<Rightarrow> datetime \<Rightarrow> datetime \<Rightarrow> app_state \<Rightarrow> string
     \<Rightarrow> price_request \<Rightarrow> job_run" where
  "run_search_job dumps start_time now s job_id request =
     (case active_jobs s job_id of
        None \<Rightarrow> \<lparr> run_states = [], run_sent = [], run_escaped = Some ''KeyError'' \<rparr>
      | Some j0 \<Rightarrow>
          (let s1 = update_job s job_id (\<lambda>j. j\<lparr>job_status := ''running''\<rparr>)
           in case st_crawler_manager s1 of
                None \<Rightarrow>
                  (let e = ''AttributeError: NoneType object has no attribute search_all_platforms'';
                       f1 = update_job s1 job_id (\<lambda>j. j\<lparr>job_status := ''failed''\<rparr>);
                       f2 = update_job f1 job_id (\<lambda>j. j\<lparr>job_error := Some e\<rparr>);
                       f3 = update_job f2 job_id
                              (\<lambda>j. j\<lparr>job_execution_time := Some (real (now - start_time))\<rparr>)
                   in \<lparr> run_states = [s1, f1, f2, f3], run_sent = [], run_escaped = None \<rparr>)
              | Some cm \<Rightarrow>
                  (let all_results = search_all_platforms cm request;
                       s2 = (case st_db_service s1 of
                               None \<Rightarrow> s1
                             | Some db \<Rightarrow>
                                 s1\<lparr>st_db_service :=
                                      Some (snd (save_search_results db now (req_hotel_name request)
                                        (req_city request) (req_country request)
                                        (req_checkin_date request) (req_checkout_date request)
                                        (req_state request) (req_latitude request)
                                        (req_longitude request) job_id all_results))\<rparr>);
                       s3 = update_job s2 job_id (\<lambda>j. j\<lparr>job_results := all_results\<rparr>);
                       s4 = update_job s3 job_id (\<lambda>j. j\<lparr>job_status := ''completed''\<rparr>);
                       s5 = update_job s4 job_id (\<lambda>j. j\<lparr>job_progress := 100\<rparr>);
                       s6 = update_job s5 job_id
                              (\<lambda>j. j\<lparr>job_completed_platforms := length (get_available_platforms cm)\<rparr>);
                       s7 = update_job s6 job_id (\<lambda>j. j\<lparr>job_completed_at := Some now\<rparr>);
                       s8 = update_job s7 job_id
                              (\<lambda>j. j\<lparr>job_execution_time := Some (real (now - start_time))\<rparr>)
                   in \<lparr> run_states = [s1, s2, s3, s4, s5, s6, s7, s8],
                        run_sent = send_results_to_websockets dumps s8 job_id all_results,
                        run_escaped = None \<rparr>)))"

text \<open>The successive values of one job's entry along a list of states.\<close>

definition job_history :: "string \<Rightarrow> app_state list \<Rightarrow> job list" where
  "job_history job_id states = List.map_filter (\<lambda>s. active_jobs s job_id) states"

section \<open>Example values\<close>

text \<open>The request of the specification's example, as submitted and as constructed.\<close>

definition grand_hotel :: price_request_input where
  "grand_hotel =
     \<lparr> in_hotel_name = ''Grand Hotel'', in_checkin_date = Some (Date 2025 6 1),
       in_checkout_date = Some (Date 2025 6 3), in_city = ''Paris'', in_state = None,
       in_country = ''France'', in_latitude = None, in_longitude = None \<rparr>"

definition grand_hotel_request :: price_request where
  "grand_hotel_request =
     \<lparr> req_hotel_name = ''Grand Hotel'', req_checkin_date = Date 2025 6 1,
       req_checkout_date = Date 2025 6 3, req_city = ''Paris'', req_state = None,
       req_country = ''France'', req_latitude = None, req_longitude = None \<rparr>"

text \<open>Generated job ids, three adapters of which the second fails, and an empty gateway.\<close>

definition job_ids :: "nat \<Rightarrow> string" where
  "job_ids n = ''job-'' @ [digit n]"

definition sample_result :: "string \<Rightarrow> string \<Rightarrow> real \<Rightarrow> search_result" where
  "sample_result platform name price =
     \<lparr> sr_platform = platform, sr_property_name = name, sr_price = price,
       sr_currency = ''USD'', sr_availability = True, sr_url = None, sr_rating = None,
       sr_review_count = None, sr_amenities = None, sr_image_url = None, sr_fetched_at = 5 \<rparr>"

definition results_A :: "search_result list" where
  "results_A = [sample_result ''airbnb'' ''Grand Hotel Suite'' 120,
                sample_result ''airbnb'' ''Grand Hotel Loft'' 95]"

definition results_C :: "search_result list" where
  "results_C = [sample_result ''vrbo'' ''Grand Hotel Flat'' 110]"

definition three_adapters :: crawler_manager where
  "three_adapters =
     \<lparr> crawlers = [(''airbnb'', \<lambda>params. Return (PyList results_A)),
                   (''booking'', \<lambda>params. Raise ''TimeoutError''),
                   (''vrbo'', \<lambda>params. Return (PyList results_C))] \<rparr>"

definition empty_db :: database_service where
  "empty_db =
     \<lparr> redis_up = True, redis_entries = Map.empty, mongo_up = True, mongo_docs = [],
       mongo_encode = (\<lambda>r. None) \<rparr>"

definition startup :: app_state where
  "startup =
     \<lparr> st_crawler_manager = Some three_adapters, st_db_service = Some empty_db,
       active_connections = [], active_jobs = Map.empty, uuid_calls = 0 \<rparr>"

text \<open>An aggregate of an earlier search for the example request, and its store document.\<close>

definition stored_record :: crawled_price_record where
  "stored_record =
     \<lparr> rec_hotel_name = ''Grand Hotel'', rec_city = ''Paris'', rec_country = ''France'',
       rec_checkin_date = Date 2025 6 1, rec_checkout_date = Date 2025 6 3, rec_state = None,
       rec_latitude = None, rec_longitude = None,
       rec_platform_prices = [(''airbnb'', results_A), (''vrbo'', results_C)],
       rec_total_results = 3, rec_crawled_at = 100, rec_job_id = ''job-0'' \<rparr>"

definition stored_doc :: mongo_doc where
  "stored_doc =
     \<lparr> doc_hotel_name = ''Grand Hotel'', doc_city = ''Paris'', doc_country = ''France'',
       doc_checkin_date = ''2025-06-01'', doc_checkout_date = ''2025-06-03'',
       doc_state = None, doc_crawled_at = 100, doc_converted = Some stored_record \<rparr>"

text \<open>
  The gateway one hour and more after that search: the cache entry written at 100 with the
  configured lifetime, and the store document.
\<close>

definition warm_db :: database_service where
  "warm_db =
     empty_db\<lparr>redis_entries :=
                [request_cache_key grand_hotel_request \<mapsto> (Json stored_record, 100 + CACHE_TTL)],
              mongo_docs := [stored_doc]\<rparr>"

definition warm :: app_state where
  "warm = startup\<lparr>st_db_service := Some warm_db\<rparr>"

text \<open>Three networks: every attempt answers 503, answers 429, or times out.\<close>

definition always_503 :: "nat \<Rightarrow> attempt_outcome" where
  "always_503 attempt = Responded \<lparr>resp_status = 503, resp_text = Inr ''Service Unavailable''\<rparr>"

definition always_429 :: "nat \<Rightarrow> attempt_outcome" where
  "always_429 attempt = Responded \<lparr>resp_status = 429, resp_text = Inr ''Too Many Requests''\<rparr>"

definition always_timeout :: "nat \<Rightarrow> attempt_outcome" where
  "always_timeout attempt = Raised ''asyncio.TimeoutError''"

definition no_page :: "string \<Rightarrow> soup" where
  "no_page content = \<lparr>soup_cards = [], soup_by_class = []\<rparr>"

definition good_listing :: "string \<Rightarrow> real \<Rightarrow> listing" where
  "good_listing name price =
     \<lparr> el_raises = False, el_name = Some name, el_price = Some price, el_rating = None,
       el_review_count = None, el_href = None, el_img_src = None, el_amenities = [] \<rparr>"

definition priceless_listing :: listing where
  "priceless_listing =
     \<lparr> el_raises = False, el_name = Some ''Sold out'', el_price = None, el_rating = None,
       el_review_count = None, el_href = None, el_img_src = None, el_amenities = [] \<rparr>"

text \<open>
  The globals once the example search has been submitted on a cold cache, and two open
  listeners, one of that job and one of another.
\<close>

definition pending_job :: job where
  "pending_job =
     \<lparr> job_status = ''pending'', job_progress = 0, job_total_platforms = 3,
       job_completed_platforms = 0, job_results = [], job_created_at = 4000,
       job_request = grand_hotel_request, job_completed_at = None,
       job_execution_time = None, job_error = None \<rparr>"

definition searching :: app_state where
  "searching = warm\<lparr>active_jobs := [''job-0'' \<mapsto> pending_job], uuid_calls := 1\<rparr>"

definition other_listener :: websocket where
  "other_listener = \<lparr>ws_id = 7, ws_job_id = ''job-9'', ws_open = True\<rparr>"

definition own_listener :: websocket where
  "own_listener = \<lparr>ws_id = 4, ws_job_id = ''job-0'', ws_open = True\<rparr>"

section \<open>Cache keys\<close>

lemmas validation_defs =
  PriceRequest_def errors_of_def checkout_after_checkin_def validate_latitude_def
  validate_longitude_def date_le_def

lemmas key_defs =
  request_cache_key_def get_cache_key_def to_key_def state_part_def isoformat_def digit_def

lemma split_at_colon:
  "CHR '':'' \<notin> set a \<Longrightarrow> CHR '':'' \<notin> set b \<Longrightarrow> a @ CHR '':'' # r1 = b @ CHR '':'' # r2
     \<Longrightarrow> a = b \<and> r1 = r2"
proof (induction a arbitrary: b)
  case Nil
  then show ?case by (cases b) auto
next
  case (Cons x xs)
  then show ?case by (cases b) auto
qed

lemma request_cache_key_parts:
  "request_cache_key r =
     ''prices:'' @ req_hotel_name r @ CHR '':'' # (req_city r @ CHR '':'' # (req_country r @ '':''
       @ isoformat (req_checkin_date r) @ '':'' @ isoformat (req_checkout_date r)
       @ state_part (req_state r)))"
  by (simp add: request_cache_key_def get_cache_key_def to_key_def)

lemma request_cache_key_name_city:
  assumes "CHR '':'' \<notin> set (req_hotel_name r1)" and "CHR '':'' \<notin> set (req_hotel_name r2)"
    and "CHR '':'' \<notin> set (req_city r1)" and "CHR '':'' \<notin> set (req_city r2)"
    and "request_cache_key r1 = request_cache_key r2"
  shows "req_hotel_name r1 = req_hotel_name r2 \<and> req_city r1 = req_city r2"
proof -
  let ?tail = "\<lambda>r. req_country r @ '':'' @ isoformat (req_checkin_date r) @ '':''
                 @ isoformat (req_checkout_date r) @ state_part (req_state r)"
  from assms(5) have
    "req_hotel_name r1 @ CHR '':'' # (req_city r1 @ CHR '':'' # ?tail r1)
       = req_hotel_name r2 @ CHR '':'' # (req_city r2 @ CHR '':'' # ?tail r2)"
    unfolding request_cache_key_parts by simp
  from split_at_colon [OF assms(1) assms(2) this]
  have name: "req_hotel_name r1 = req_hotel_name r2"
    and rest: "req_city r1 @ CHR '':'' # ?tail r1 = req_city r2 @ CHR '':'' # ?tail r2"
    by auto
  from split_at_colon [OF assms(3) assms(4) rest] name show ?thesis
    by simp
qed

lemma grand_hotel_valid: "PriceRequest grand_hotel = Inr grand_hotel_request"
  by (simp add: validation_defs grand_hotel_def grand_hotel_request_def)

lemma lower_case_valid:
  "PriceRequest (grand_hotel\<lparr>in_hotel_name := ''grand hotel''\<rparr>)
     = Inr (grand_hotel_request\<lparr>req_hotel_name := ''grand hotel''\<rparr>)"
  by (simp add: validation_defs grand_hotel_def grand_hotel_request_def)

lemma lower_case_key:
  "request_cache_key grand_hotel_request
     \<noteq> request_cache_key (grand_hotel_request\<lparr>req_hotel_name := ''grand hotel''\<rparr>)"
  by (simp add: grand_hotel_request_def key_defs)

lemma padded_city_valid:
  "PriceRequest (grand_hotel\<lparr>in_city := '' Paris ''\<rparr>)
     = Inr (grand_hotel_request\<lparr>req_city := '' Paris ''\<rparr>)"
  by (simp add: validation_defs grand_hotel_def grand_hotel_request_def)

lemma padded_city_clean: "clean_text '' Paris '' = clean_text ''Paris''"
  by (simp add: clean_text_def isspace_def)

lemma padded_city_key:
  "request_cache_key grand_hotel_request
     \<noteq> request_cache_key (grand_hotel_request\<lparr>req_city := '' Paris ''\<rparr>)"
  by (simp add: grand_hotel_request_def key_defs)

text \<open>
  C4, as stated, fails: the key is built from the fields as they were submitted. The valid
  request for "Grand Hotel" and the one for "grand hotel" get different keys, and so do the
  requests for "Paris" and for " Paris ", two texts that the crawler's own \<open>_clean_text\<close>
  identifies.
\<close>

theorem cache_key_formatting_counterexample:
  "PriceRequest grand_hotel = Inr grand_hotel_request
   \<and> PriceRequest (grand_hotel\<lparr>in_hotel_name := ''grand hotel''\<rparr>)
       = Inr (grand_hotel_request\<lparr>req_hotel_name := ''grand hotel''\<rparr>)
   \<and> request_cache_key grand_hotel_request
       \<noteq> request_cache_key (grand_hotel_request\<lparr>req_hotel_name := ''grand hotel''\<rparr>)
   \<and> PriceRequest (grand_hotel\<lparr>in_city := '' Paris ''\<rparr>)
       = Inr (grand_hotel_request\<lparr>req_city := '' Paris ''\<rparr>)
   \<and> clean_text '' Paris '' = clean_text ''Paris''
   \<and> request_cache_key grand_hotel_request
       \<noteq> request_cache_key (grand_hotel_request\<lparr>req_city := '' Paris ''\<rparr>)"
  by (intro conjI grand_hotel_valid lower_case_valid lower_case_key padded_city_valid
      padded_city_clean padded_city_key)

text \<open>
  C4, amended: the cache key is a function of the six fields exactly as submitted. Two
  requests that agree on hotel name, city, country, check-in, check-out and on the state part
  (an absent and an empty state give the same part) have the same key, whatever their
  coordinates; and nothing is normalised: two requests whose hotel names or cities differ in
  any character, letter case and whitespace included, have different keys (names and cities
  without a colon).
\<close>

theorem cache_key_of_raw_fields:
  "(req_hotel_name r1 = req_hotel_name r2 \<and> req_city r1 = req_city r2
      \<and> req_country r1 = req_country r2 \<and> req_checkin_date r1 = req_checkin_date r2
      \<and> req_checkout_date r1 = req_checkout_date r2
      \<and> state_part (req_state r1) = state_part (req_state r2)
     \<longrightarrow> request_cache_key r1 = request_cache_key r2)
   \<and> (CHR '':'' \<notin> set (req_hotel_name r1) \<and> CHR '':'' \<notin> set (req_city r1)
      \<and> CHR '':'' \<notin> set (req_hotel_name r2) \<and> CHR '':'' \<notin> set (req_city r2)
      \<and> (req_hotel_name r1 \<noteq> req_hotel_name r2 \<or> req_city r1 \<noteq> req_city r2)
     \<longrightarrow> request_cache_key r1 \<noteq> request_cache_key r2)"
proof (intro conjI impI)
  assume "req_hotel_name r1 = req_hotel_name r2 \<and> req_city r1 = req_city r2
      \<and> req_country r1 = req_country r2 \<and> req_checkin_date r1 = req_checkin_date r2
      \<and> req_checkout_date r1 = req_checkout_date r2
      \<and> state_part (req_state r1) = state_part (req_state r2)"
  then show "request_cache_key r1 = request_cache_key r2"
    by (simp add: request_cache_key_parts)
next
  assume h: "CHR '':'' \<notin> set (req_hotel_name r1) \<and> CHR '':'' \<notin> set (req_city r1)
      \<and> CHR '':'' \<notin> set (req_hotel_name r2) \<and> CHR '':'' \<notin> set (req_city r2)
      \<and> (req_hotel_name r1 \<noteq> req_hotel_name r2 \<or> req_city r1 \<noteq> req_city r2)"
  show "request_cache_key r1 \<noteq> request_cache_key r2"
  proof
    assume "request_cache_key r1 = request_cache_key r2"
    with h have "req_hotel_name r1 = req_hotel_name r2 \<and> req_city r1 = req_city r2"
      by (intro request_cache_key_name_city) simp_all
    with h show False by simp
  qed
qed

theorem cache_key_of_raw_fields_witness:
  "request_cache_key grand_hotel_request
     = request_cache_key (grand_hotel_request\<lparr>req_latitude := Some 48, req_state := Some []\<rparr>)
   \<and> request_cache_key grand_hotel_request
       \<noteq> request_cache_key (grand_hotel_request\<lparr>req_hotel_name := ''GRAND HOTEL''\<rparr>)"
proof
  let ?r2 = "grand_hotel_request\<lparr>req_latitude := Some 48, req_state := Some []\<rparr>"
  have "req_hotel_name grand_hotel_request = req_hotel_name ?r2
      \<and> req_city grand_hotel_request = req_city ?r2
      \<and> req_country grand_hotel_request = req_country ?r2
      \<and> req_checkin_date grand_hotel_request = req_checkin_date ?r2
      \<and> req_checkout_date grand_hotel_request = req_checkout_date ?r2
      \<and> state_part (req_state grand_hotel_request) = state_part (req_state ?r2)"
    by (simp add: grand_hotel_request_def state_part_def)
  then show "request_cache_key grand_hotel_request = request_cache_key ?r2"
    by (rule cache_key_of_raw_fields [of grand_hotel_request ?r2, THEN conjunct1, THEN mp])
next
  let ?r3 = "grand_hotel_request\<lparr>req_hotel_name := ''GRAND HOTEL''\<rparr>"
  have "CHR '':'' \<notin> set (req_hotel_name grand_hotel_request)
      \<and> CHR '':'' \<notin> set (req_city grand_hotel_request)
      \<and> CHR '':'' \<notin> set (req_hotel_name ?r3) \<and> CHR '':'' \<notin> set (req_city ?r3)
      \<and> (req_hotel_name grand_hotel_request \<noteq> req_hotel_name ?r3
          \<or> req_city grand_hotel_request \<noteq> req_city ?r3)"
    by (simp add: grand_hotel_request_def)
  then show "request_cache_key grand_hotel_request \<noteq> request_cache_key ?r3"
    by (rule cache_key_of_raw_fields [of grand_hotel_request ?r3, THEN conjunct2, THEN mp])
qed

lemma to_key_collision:
  "\<exists>k1 k2. k1 \<noteq> k2 \<and> to_key k1 = to_key k2"
proof -
  let ?k1 = "\<lparr> ck_hotel_name = ''a:b'', ck_city = ''c'', ck_country = ''d'',
              ck_checkin_date = Date 2025 6 1, ck_checkout_date = Date 2025 6 3,
              ck_state = None \<rparr>"
  let ?k2 = "\<lparr> ck_hotel_name = ''a'', ck_city = ''b:c'', ck_country = ''d'',
              ck_checkin_date = Date 2025 6 1, ck_checkout_date = Date 2025 6 3,
              ck_state = None \<rparr>"
  have "ck_city ?k1 \<noteq> ck_city ?k2"
    by simp
  then have ne: "?k1 \<noteq> ?k2"
    by (rule contrapos_nn) (erule arg_cong)
  have eq: "to_key ?k1 = to_key ?k2"
    by (simp add: to_key_def state_part_def isoformat_def digit_def)
  from ne eq show ?thesis
    by (intro exI conjI)
qed

lemma colon_in_name_valid:
  "PriceRequest (grand_hotel\<lparr>in_hotel_name := ''Grand:Hotel''\<rparr>)
     = Inr (grand_hotel_request\<lparr>req_hotel_name := ''Grand:Hotel''\<rparr>)"
  by (simp add: validation_defs grand_hotel_def grand_hotel_request_def)

lemma colon_in_city_valid:
  "PriceRequest (grand_hotel\<lparr>in_hotel_name := ''Grand'', in_city := ''Hotel:Paris''\<rparr>)
     = Inr (grand_hotel_request\<lparr>req_hotel_name := ''Grand'', req_city := ''Hotel:Paris''\<rparr>)"
  by (simp add: validation_defs grand_hotel_def grand_hotel_request_def)

lemma colon_collision:
  "request_cache_key (grand_hotel_request\<lparr>req_hotel_name := ''Grand:Hotel''\<rparr>)
     = request_cache_key (grand_hotel_request\<lparr>req_hotel_name := ''Grand'', req_city := ''Hotel:Paris''\<rparr>)"
  by (simp add: grand_hotel_request_def key_defs)

lemma date_in_country_valid:
  "PriceRequest (grand_hotel\<lparr>in_country := ''France:2025-05-01''\<rparr>)
     = Inr (grand_hotel_request\<lparr>req_country := ''France:2025-05-01''\<rparr>)"
  by (simp add: validation_defs grand_hotel_def grand_hotel_request_def)

lemma date_in_state_valid:
  "PriceRequest (grand_hotel\<lparr>in_checkin_date := Some (Date 2025 5 1),
       in_checkout_date := Some (Date 2025 6 1), in_state := Some ''2025-06-03''\<rparr>)
     = Inr (grand_hotel_request\<lparr>req_checkin_date := Date 2025 5 1,
         req_checkout_date := Date 2025 6 1, req_state := Some ''2025-06-03''\<rparr>)"
  by (simp add: validation_defs grand_hotel_def grand_hotel_request_def)

lemma state_collision:
  "request_cache_key (grand_hotel_request\<lparr>req_country := ''France:2025-05-01''\<rparr>)
     = request_cache_key (grand_hotel_request\<lparr>req_checkin_date := Date 2025 5 1,
         req_checkout_date := Date 2025 6 1, req_state := Some ''2025-06-03''\<rparr>)"
  by (simp add: grand_hotel_request_def key_defs)

text \<open>
  C10: the key derivation is not injective. Two cache keys with different fields render to
  the same text; among valid requests, a colon inside the hotel name moves the boundary
  between name and city, and a request without state whose country ends in a date collides
  with a request whose state is the text of a date.
\<close>

theorem cache_key_not_injective:
  "(\<exists>k1 k2. k1 \<noteq> k2 \<and> to_key k1 = to_key k2)
   \<and> PriceRequest (grand_hotel\<lparr>in_hotel_name := ''Grand:Hotel''\<rparr>)
       = Inr (grand_hotel_request\<lparr>req_hotel_name := ''Grand:Hotel''\<rparr>)
   \<and> PriceRequest (grand_hotel\<lparr>in_hotel_name := ''Grand'', in_city := ''Hotel:Paris''\<rparr>)
       = Inr (grand_hotel_request\<lparr>req_hotel_name := ''Grand'', req_city := ''Hotel:Paris''\<rparr>)
   \<and> request_cache_key (grand_hotel_request\<lparr>req_hotel_name := ''Grand:Hotel''\<rparr>)
       = request_cache_key
           (grand_hotel_request\<lparr>req_hotel_name := ''Grand'', req_city := ''Hotel:Paris''\<rparr>)
   \<and> PriceRequest (grand_hotel\<lparr>in_country := ''France:2025-05-01''\<rparr>)
       = Inr (grand_hotel_request\<lparr>req_country := ''France:2025-05-01''\<rparr>)
   \<and> PriceRequest (grand_hotel\<lparr>in_checkin_date := Some (Date 2025 5 1),
         in_checkout_date := Some (Date 2025 6 1), in_state := Some ''2025-06-03''\<rparr>)
       = Inr (grand_hotel_request\<lparr>req_checkin_date := Date 2025 5 1,
           req_checkout_date := Date 2025 6 1, req_state := Some ''2025-06-03''\<rparr>)
   \<and> request_cache_key (grand_hotel_request\<lparr>req_country := ''France:2025-05-01''\<rparr>)
       = request_cache_key (grand_hotel_request\<lparr>req_checkin_date := Date 2025 5 1,
           req_checkout_date := Date 2025 6 1, req_state := Some ''2025-06-03''\<rparr>)"
  by (intro conjI to_key_collision colon_in_name_valid colon_in_city_valid colon_collision
      date_in_country_valid date_in_state_valid state_collision)

section \<open>Validation\<close>

text \<open>
  C7: a request whose check-out date is not after its check-in date is refused when the
  \<open>PriceRequest\<close> is constructed, with the validator's error; the handler is not entered,
  so the globals (the job registry and the count of generated job ids among them) are
  unchanged and no background task is added.
\<close>

theorem checkout_not_after_checkin_rejected:
  assumes "in_checkin_date body = Some checkin"
    and "in_checkout_date body = Some checkout"
    and "date_le checkout checkin"
  shows "\<exists>errs. PriceRequest body = Inl errs
           \<and> ''Checkout date must be after checkin date'' \<in> set errs
           \<and> post_search uuid4 now s body = (RequestValidationError errs, s, [])"
  using assms
  by (simp add: PriceRequest_def post_search_def checkout_after_checkin_def errors_of_def Let_def)

theorem checkout_not_after_checkin_rejected_witness:
  "\<exists>errs. PriceRequest (grand_hotel\<lparr>in_checkout_date := Some (Date 2025 6 1)\<rparr>) = Inl errs
           \<and> ''Checkout date must be after checkin date'' \<in> set errs
           \<and> post_search job_ids 0 startup (grand_hotel\<lparr>in_checkout_date := Some (Date 2025 6 1)\<rparr>)
               = (RequestValidationError errs, startup, [])"
proof -
  have a: "in_checkin_date (grand_hotel\<lparr>in_checkout_date := Some (Date 2025 6 1)\<rparr>)
             = Some (Date 2025 6 1)"
    by (simp add: grand_hotel_def)
  have b: "in_checkout_date (grand_hotel\<lparr>in_checkout_date := Some (Date 2025 6 1)\<rparr>)
             = Some (Date 2025 6 1)"
    by simp
  have c: "date_le (Date 2025 6 1) (Date 2025 6 1)"
    by (simp add: date_le_def)
  show ?thesis
    by (rule checkout_not_after_checkin_rejected [OF a b c])
qed

section \<open>Cache and store lookup\<close>

text \<open>
  C2: when the cache holds an unexpired entry for the request's key, \<open>search_properties\<close>
  answers at once from that entry (its retrieval time and its total count): the globals are
  returned as they were, so the job registry has no new entry and no job id was generated,
  and no background task, hence no adapter call, is scheduled.
\<close>

theorem cache_hit_returns_immediately:
  assumes "st_crawler_manager s = Some cm"
    and "st_db_service s = Some db"
    and "redis_up db"
    and "redis_entries db (request_cache_key request) = Some (Json r, expires_at)"
    and "now < expires_at"
  shows "search_properties uuid4 now s request
           = (CachedResults (rec_crawled_at r) (rec_total_results r), s, [])"
proof -
  have "get_cached_prices db now (req_hotel_name request) (req_city request)
          (req_country request) (req_checkin_date request) (req_checkout_date request)
          (req_state request) = Some r"
    using assms(3-5)
    by (simp add: get_cached_prices_def redis_get_def request_cache_key_def truthy_text_def
        deserialize_from_cache_def)
  with assms(1,2) show ?thesis
    by (simp add: search_properties_def)
qed

lemma warm_entry:
  "redis_entries warm_db (request_cache_key grand_hotel_request) = Some (Json stored_record, 3700)"
  by (simp add: warm_db_def empty_db_def CACHE_TTL_def)

theorem cache_hit_returns_immediately_witness:
  "search_properties job_ids 110 warm grand_hotel_request = (CachedResults 100 3, warm, [])"
proof -
  have a: "st_crawler_manager warm = Some three_adapters"
    by (simp add: warm_def startup_def)
  have b: "st_db_service warm = Some warm_db"
    by (simp add: warm_def)
  have c: "redis_up warm_db"
    by (simp add: warm_db_def empty_db_def)
  have d: "(110::nat) < 3700"
    by simp
  have "search_properties job_ids 110 warm grand_hotel_request
          = (CachedResults (rec_crawled_at stored_record) (rec_total_results stored_record), warm, [])"
    by (rule cache_hit_returns_immediately [OF a b c warm_entry d])
  then show ?thesis
    by (simp add: stored_record_def)
qed

lemma request_cache_key_fields:
  "get_cache_key (req_hotel_name r) (req_city r) (req_country r) (req_checkin_date r)
     (req_checkout_date r) (req_state r) = request_cache_key r"
  by (simp add: request_cache_key_def)

lemma expired_miss:
  "get_cached_prices warm_db 4000 (req_hotel_name grand_hotel_request)
     (req_city grand_hotel_request) (req_country grand_hotel_request)
     (req_checkin_date grand_hotel_request) (req_checkout_date grand_hotel_request)
     (req_state grand_hotel_request) = None"
  unfolding get_cached_prices_def request_cache_key_fields
  by (simp add: redis_get_def warm_entry)

lemma store_match:
  "get_prices_from_mongodb warm_db (req_hotel_name grand_hotel_request)
     (req_city grand_hotel_request) (req_country grand_hotel_request)
     (req_checkin_date grand_hotel_request) (req_checkout_date grand_hotel_request)
     (req_state grand_hotel_request) = Some stored_record"
  by (simp add: get_prices_from_mongodb_def find_one_def query_matches_def warm_db_def
      empty_db_def stored_doc_def grand_hotel_request_def isoformat_def digit_def)

lemma get_cached_prices_ignores_store:
  "get_cached_prices (db\<lparr>mongo_up := up, mongo_docs := docs\<rparr>) now h c k i out st
     = get_cached_prices db now h c k i out st"
  by (simp add: get_cached_prices_def redis_get_def)

lemma warm_search:
  "search_properties job_ids 4000 warm grand_hotel_request
      = (JobStarted ''job-0'',
         warm\<lparr>active_jobs := [''job-0'' \<mapsto>
              \<lparr> job_status = ''pending'', job_progress = 0,
                job_total_platforms = 3,
                job_completed_platforms = 0, job_results = [],
                job_created_at = 4000, job_request = grand_hotel_request,
                job_completed_at = None, job_execution_time = None,
                job_error = None \<rparr>],
              uuid_calls := 1\<rparr>,
         [(''job-0'', grand_hotel_request)])"
proof -
  have a: "st_crawler_manager warm = Some three_adapters"
    by (simp add: warm_def startup_def)
  have b: "st_db_service warm = Some warm_db"
    by (simp add: warm_def)
  have c: "job_ids 0 = ''job-0''" and d: "uuid_calls warm = 0"
    and e: "active_jobs warm = Map.empty"
    by (simp_all add: warm_def startup_def job_ids_def digit_def)
  have f: "length (get_available_platforms three_adapters) = 3"
    by (simp add: get_available_platforms_def three_adapters_def)
  show ?thesis
    unfolding search_properties_def
    by (simp add: a b expired_miss c d e f Let_def)
qed

text \<open>
  What \<open>cache_prices\<close> has written is found again by \<open>get_cached_prices\<close> for as long as
  the entry lives.
\<close>

lemma cached_then_hit:
  assumes "cache_prices db t r = (True, db')" and "t' < t + CACHE_TTL"
  shows "get_cached_prices db' t' (rec_hotel_name r) (rec_city r) (rec_country r)
           (rec_checkin_date r) (rec_checkout_date r) (rec_state r) = Some r"
  using assms
  by (auto simp: cache_prices_def redis_setex_def get_cached_prices_def redis_get_def
      truthy_text_def deserialize_from_cache_def split: if_splits)

text \<open>
  C3, as stated, fails: an hour and more after the first search the cache entry has expired
  and the store still holds the matching document, which \<open>get_prices_from_mongodb\<close> finds;
  \<open>search_properties\<close> nevertheless starts a new job and schedules the orchestration.
\<close>

theorem store_fallback_counterexample:
  "get_cached_prices warm_db 4000 (req_hotel_name grand_hotel_request)
     (req_city grand_hotel_request) (req_country grand_hotel_request)
     (req_checkin_date grand_hotel_request) (req_checkout_date grand_hotel_request)
     (req_state grand_hotel_request) = None
   \<and> get_prices_from_mongodb warm_db (req_hotel_name grand_hotel_request)
       (req_city grand_hotel_request) (req_country grand_hotel_request)
       (req_checkin_date grand_hotel_request) (req_checkout_date grand_hotel_request)
       (req_state grand_hotel_request) = Some stored_record
   \<and> fst (search_properties job_ids 4000 warm grand_hotel_request) = JobStarted ''job-0''
   \<and> snd (snd (search_properties job_ids 4000 warm grand_hotel_request))
       = [(''job-0'', grand_hotel_request)]
   \<and> active_jobs warm = Map.empty
   \<and> dom (active_jobs (fst (snd (search_properties job_ids 4000 warm grand_hotel_request))))
       = {''job-0''}"
  unfolding warm_search
  by (simp add: expired_miss store_match) (simp add: warm_def startup_def)

text \<open>
  C3, amended: on a cache miss the search submission does not consult the durable store. It
  creates a new pending job under a fresh id and schedules the orchestration for it, whatever
  documents the store holds and whether or not the store is reachable.
\<close>

theorem cache_miss_creates_job:
  assumes "st_crawler_manager s = Some cm"
    and "st_db_service s = Some db"
    and "get_cached_prices db now (req_hotel_name request) (req_city request)
           (req_country request) (req_checkin_date request) (req_checkout_date request)
           (req_state request) = None"
  shows "case search_properties gen now
                (s\<lparr>st_db_service := Some (db\<lparr>mongo_up := up, mongo_docs := docs\<rparr>)\<rparr>) request of
           (resp, s', tasks) \<Rightarrow>
             resp = JobStarted (gen (uuid_calls s))
             \<and> tasks = [(gen (uuid_calls s), request)]
             \<and> uuid_calls s' = Suc (uuid_calls s)
             \<and> dom (active_jobs s') = insert (gen (uuid_calls s)) (dom (active_jobs s))
             \<and> (\<exists>j. active_jobs s' (gen (uuid_calls s)) = Some j
                    \<and> job_status j = ''pending'' \<and> job_progress j = 0 \<and> job_results j = []
                    \<and> job_request j = request)"
proof -
  have "get_cached_prices (db\<lparr>mongo_up := up, mongo_docs := docs\<rparr>) now (req_hotel_name request)
          (req_city request) (req_country request) (req_checkin_date request)
          (req_checkout_date request) (req_state request) = None"
    using assms(3) by (simp only: get_cached_prices_ignores_store)
  with assms(1,2) show ?thesis
    by (simp add: search_properties_def Let_def)
qed

theorem cache_miss_creates_job_witness:
  "case search_properties job_ids 4000
          (startup\<lparr>st_db_service := Some (warm_db\<lparr>mongo_up := True, mongo_docs := [stored_doc]\<rparr>)\<rparr>)
          grand_hotel_request of
     (resp, s', tasks) \<Rightarrow>
       resp = JobStarted ''job-0''
       \<and> tasks = [(''job-0'', grand_hotel_request)]
       \<and> uuid_calls s' = 1
       \<and> dom (active_jobs s') = {''job-0''}
       \<and> (\<exists>j. active_jobs s' ''job-0'' = Some j
              \<and> job_status j = ''pending'' \<and> job_progress j = 0 \<and> job_results j = []
              \<and> job_request j = grand_hotel_request)"
proof -
  have a: "st_crawler_manager (startup\<lparr>st_db_service := Some warm_db\<rparr>) = Some three_adapters"
    by (simp add: startup_def)
  have b: "st_db_service (startup\<lparr>st_db_service := Some warm_db\<rparr>) = Some warm_db"
    by simp
  have e: "job_ids 0 = ''job-0''"
    by (simp add: job_ids_def digit_def)
  have f: "uuid_calls (startup\<lparr>st_db_service := Some warm_db\<rparr>) = 0"
    and g: "active_jobs (startup\<lparr>st_db_service := Some warm_db\<rparr>) = Map.empty"
    by (simp_all add: startup_def)
  show ?thesis
    using cache_miss_creates_job [OF a b expired_miss, where gen = job_ids and up = True
        and docs = "[stored_doc]"]
    unfolding f g e by simp
qed


section \<open>Retries\<close>

lemma make_request_loop_done:
  "max_retries \<le> attempt \<Longrightarrow>
     make_request_loop max_retries delay net attempt sleeps = (sleeps, Inr None)"
  by (subst make_request_loop.simps) simp

lemma make_request_loop_exhausted:
  assumes "attempt < max_retries"
    and "\<forall>i. attempt \<le> i \<and> i < max_retries \<longrightarrow>
             (\<forall>r. net i = Responded r \<longrightarrow> resp_status r \<noteq> 200)"
  shows "snd (make_request_loop max_retries delay net attempt sleeps)
           = (case net (max_retries - 1) of Raised e \<Rightarrow> Inl e | Responded r \<Rightarrow> Inr None)"
  using assms
proof (induction "max_retries - attempt" arbitrary: attempt sleeps)
  case 0
  then show ?case by simp
next
  case (Suc n)
  from Suc.prems have here: "\<forall>r. net attempt = Responded r \<longrightarrow> resp_status r \<noteq> 200"
    by auto
  show ?case
  proof (cases "attempt = max_retries - 1")
    case True
    then have stop: "\<not> Suc attempt < max_retries"
      by simp
    from True Suc.prems(1) here stop show ?thesis
      by (subst make_request_loop.simps)
         (auto simp: Let_def make_request_loop_done split: attempt_outcome.splits)
  next
    case False
    with Suc.prems(1) have more: "Suc attempt < max_retries"
      by simp
    from Suc.hyps(2) have n: "n = max_retries - Suc attempt"
      by simp
    from Suc.prems(2) have rest: "\<forall>i. Suc attempt \<le> i \<and> i < max_retries \<longrightarrow>
             (\<forall>r. net i = Responded r \<longrightarrow> resp_status r \<noteq> 200)"
      by (meson Suc_leD)
    have IH: "\<forall>sl. snd (make_request_loop max_retries delay net (Suc attempt) sl)
                 = (case net (max_retries - 1) of Raised e \<Rightarrow> Inl e
                    | Responded r \<Rightarrow> Inr None)"
      using Suc.hyps(1) [OF n more rest] by simp
    from False Suc.prems(1) here IH show ?thesis
      by (subst make_request_loop.simps)
         (auto simp: Let_def split: attempt_outcome.splits)
  qed
qed

lemma airbnb_config: "get_platform_config ''airbnb'' = Some \<lparr>cfg_enabled = True, cfg_delay_between_requests = 2, cfg_max_retries = 3\<rparr>"
  by (simp add: get_platform_config_def PLATFORMS_def)

lemma loop_503: "make_request_loop 3 2 always_503 0 [] = ([2, 2], Inr None)"
  by (simp add: make_request_loop.simps always_503_def)

lemma loop_429: "make_request_loop 3 2 always_429 0 [] = ([4, 2, 8, 2, 12], Inr None)"
  by (simp add: make_request_loop.simps always_429_def)

lemma loop_timeout: "make_request_loop 3 2 always_timeout 0 [] = ([2, 2], Inl ''asyncio.TimeoutError'')"
  by (simp add: make_request_loop.simps always_timeout_def)



lemma make_request_503: "make_request (get_platform_config ''airbnb'') always_503 = Inr None"
  by (simp add: make_request_def airbnb_config loop_503)

lemma make_request_429: "make_request (get_platform_config ''airbnb'') always_429 = Inr None"
  by (simp add: make_request_def airbnb_config loop_429)

lemma get_page_content_503:
  "get_page_content (get_platform_config ''airbnb'') always_503 = Inr None"
  by (simp add: get_page_content_def make_request_503)

lemma airbnb_search_503:
  "airbnb_search_properties (Inr MAX_PRICE_RESULTS_PER_PLATFORM) no_page 0 always_503 = Inr []"
  by (simp add: airbnb_search_properties_def airbnb_search_body_def get_page_soup_def
      get_page_content_503)

text \<open>
  C6, as stated, fails: with the three configured attempts all answered by 503, or all by
  429, \<open>make_request\<close> returns \<open>None\<close> instead of raising, \<open>get_page_content\<close> passes
  the \<open>None\<close> on, and the crawler's search returns the empty list.
\<close>

theorem retries_exhausted_counterexample:
  "make_request (get_platform_config ''airbnb'') always_503 = Inr None
   \<and> make_request (get_platform_config ''airbnb'') always_429 = Inr None
   \<and> get_page_content (get_platform_config ''airbnb'') always_503 = Inr None
   \<and> airbnb_search_properties (Inr MAX_PRICE_RESULTS_PER_PLATFORM) no_page 0 always_503 = Inr []"
  by (intro conjI make_request_503 make_request_429 get_page_content_503 airbnb_search_503)

text \<open>
  C6, amended: when every configured attempt is used up without a 200 response,
  \<open>make_request\<close> raises exactly when the last attempt itself raised, and then raises that
  exception; when the last attempt received a response (a rate limit or any other status),
  it returns \<open>None\<close>, and \<open>get_page_content\<close> does the same.
\<close>

theorem retries_exhausted:
  assumes "0 < cfg_max_retries c"
    and "\<forall>i < cfg_max_retries c. \<forall>r. net i = Responded r \<longrightarrow> resp_status r \<noteq> 200"
  shows "make_request (Some c) net
           = (case net (cfg_max_retries c - 1) of Raised e \<Rightarrow> Inl e | Responded r \<Rightarrow> Inr None)
         \<and> get_page_content (Some c) net
           = (case net (cfg_max_retries c - 1) of Raised e \<Rightarrow> Inl e | Responded r \<Rightarrow> Inr None)"
proof -
  have "make_request (Some c) net
           = (case net (cfg_max_retries c - 1) of Raised e \<Rightarrow> Inl e | Responded r \<Rightarrow> Inr None)"
    using assms make_request_loop_exhausted [of 0 "cfg_max_retries c" net]
    by (simp add: make_request_def)
  then show ?thesis
    by (simp add: get_page_content_def split: attempt_outcome.splits)
qed

theorem retries_exhausted_witness:
  "make_request (Some \<lparr>cfg_enabled = True, cfg_delay_between_requests = 2, cfg_max_retries = 3\<rparr>)
       always_timeout = Inl ''asyncio.TimeoutError''
   \<and> get_page_content
       (Some \<lparr>cfg_enabled = True, cfg_delay_between_requests = 2, cfg_max_retries = 3\<rparr>)
       always_503 = Inr None"
proof -
  let ?c = "\<lparr>cfg_enabled = True, cfg_delay_between_requests = 2, cfg_max_retries = 3\<rparr>"
  have pos: "0 < cfg_max_retries ?c"
    by simp
  have t: "\<forall>i < cfg_max_retries ?c. \<forall>r. always_timeout i = Responded r \<longrightarrow> resp_status r \<noteq> 200"
    by (simp add: always_timeout_def)
  have u: "\<forall>i < cfg_max_retries ?c. \<forall>r. always_503 i = Responded r \<longrightarrow> resp_status r \<noteq> 200"
    by (auto simp: always_503_def)
  have last_t: "always_timeout 2 = Raised ''asyncio.TimeoutError''"
    by (simp add: always_timeout_def)
  have last_u: "always_503 2
                  = Responded \<lparr>resp_status = 503, resp_text = Inr ''Service Unavailable''\<rparr>"
    by (simp add: always_503_def)
  from retries_exhausted [OF pos t] retries_exhausted [OF pos u] show ?thesis
    by (simp add: last_t last_u)
qed

section \<open>The bound on an adapter's results\<close>

lemma collect_listings_map_filter:
  "collect_listings now ls results = results @ List.map_filter (extract_listing_data now) ls"
  by (induction ls arbitrary: results) (auto simp: List.map_filter_simps split: option.splits)

lemma length_map_filter_le: "length (List.map_filter f xs) \<le> length xs"
  by (induction xs) (auto simp: List.map_filter_simps split: option.splits)

lemma airbnb_never_raises:
  "\<exists>results. airbnb_search_properties max_results BeautifulSoup now net = Inr results"
  by (simp add: airbnb_search_properties_def split: sum.splits)

lemma airbnb_length:
  assumes "airbnb_search_properties (Inr n) BeautifulSoup now net = Inr results"
  shows "length results \<le> n"
proof -
  have "length (List.map_filter (extract_listing_data now) (take n ls)) \<le> n" for ls
    using length_map_filter_le [of "extract_listing_data now" "take n ls"] by simp
  with assms show ?thesis
    by (auto simp: airbnb_search_properties_def airbnb_search_body_def Let_def
        collect_listings_map_filter split: sum.splits option.splits)
qed

lemma airbnb_as_written:
  "airbnb_search_properties airbnb_Config_lookup BeautifulSoup now net = Inr []"
  by (simp add: airbnb_search_properties_def airbnb_search_body_def airbnb_Config_lookup_def
      Let_def split: sum.splits option.splits)

lemma unusable_listing:
  "el_raises l \<or> el_price l = None \<or> el_price l = Some 0 \<Longrightarrow> extract_listing_data now l = None"
  by (auto simp: extract_listing_data_def)

text \<open>
  C9: the Airbnb search never raises and returns at most ten records: with the configured
  maximum it returns a list of at most 10 results, and as the module is written (the name
  \<open>Config\<close> is not imported there) the lookup of the maximum raises inside the \<open>try\<close> and
  the result is the empty list. A listing that cannot be used (its extraction raises, or it
  has no price) is passed over: the results are those of the listings around it.
\<close>

theorem airbnb_results_bounded:
  "(\<exists>results. airbnb_search_properties (Inr MAX_PRICE_RESULTS_PER_PLATFORM) BeautifulSoup now net
        = Inr results \<and> length results \<le> 10)
   \<and> airbnb_search_properties airbnb_Config_lookup BeautifulSoup now net = Inr []
   \<and> (el_raises l \<or> el_price l = None \<or> el_price l = Some 0
        \<longrightarrow> collect_listings now (before @ l # after) results
            = collect_listings now (before @ after) results)"
proof (intro conjI impI)
  obtain results where r: "airbnb_search_properties (Inr MAX_PRICE_RESULTS_PER_PLATFORM)
      BeautifulSoup now net = Inr results"
    using airbnb_never_raises by blast
  from airbnb_length [OF r] have "length results \<le> 10"
    by (simp add: MAX_PRICE_RESULTS_PER_PLATFORM_def)
  with r show "\<exists>results. airbnb_search_properties (Inr MAX_PRICE_RESULTS_PER_PLATFORM)
      BeautifulSoup now net = Inr results \<and> length results \<le> 10"
    by blast
next
  show "airbnb_search_properties airbnb_Config_lookup BeautifulSoup now net = Inr []"
    by (rule airbnb_as_written)
next
  assume "el_raises l \<or> el_price l = None \<or> el_price l = Some 0"
  then have "extract_listing_data now l = None"
    by (rule unusable_listing)
  then show "collect_listings now (before @ l # after) results
            = collect_listings now (before @ after) results"
    by (simp add: collect_listings_map_filter List.map_filter_def)
qed

theorem airbnb_results_bounded_witness:
  "collect_listings 0 [good_listing ''Loft'' 95, priceless_listing, good_listing ''Suite'' 120] []
     = collect_listings 0 [good_listing ''Loft'' 95, good_listing ''Suite'' 120] []"
proof -
  have "el_raises priceless_listing \<or> el_price priceless_listing = None
          \<or> el_price priceless_listing = Some 0"
    by (simp add: priceless_listing_def)
  with airbnb_results_bounded [of no_page 0 always_503 priceless_listing
      "[good_listing ''Loft'' 95]" "[good_listing ''Suite'' 120]" "[]"]
  show ?thesis
    by simp
qed

section \<open>Fan-out and the job's life\<close>

lemma process_results_append:
  "process_results (xs @ ys) all_results = process_results ys (process_results xs all_results)"
  by (induction xs all_results rule: process_results.induct) simp_all

lemma process_results_lists:
  "process_results (map PyList ls) all_results = all_results @ concat ls"
  by (induction ls arbitrary: all_results) simp_all

lemma tasks_of_outcomes:
  "map (\<lambda>(platform, crawler). search_platform platform crawler params) cs
     = map (\<lambda>outcome. case outcome of Raise e \<Rightarrow> PyList [] | Return v \<Rightarrow> v)
         (map (\<lambda>(platform, crawler). crawler params) cs)"
  by (induction cs) (auto simp: search_platform_def)

lemma search_all_platforms_isolates:
  assumes "map (\<lambda>(platform, crawler). crawler (request_params request)) (crawlers cm)
             = map (\<lambda>l. Return (PyList l)) before @ [Raise e] @ map (\<lambda>l. Return (PyList l)) after"
  shows "search_all_platforms cm request = concat before @ concat after"
proof -
  have tasks: "map (\<lambda>(platform, crawler). search_platform platform crawler (request_params request))
          (crawlers cm)
        = map PyList before @ [PyList []] @ map PyList after"
    unfolding tasks_of_outcomes assms by (simp add: comp_def)
  show ?thesis
    unfolding search_all_platforms_def Let_def tasks
    by (simp add: process_results_append process_results_lists)
qed

lemma update_job_fields [simp]:
  "st_crawler_manager (update_job s k f) = st_crawler_manager s"
  "st_db_service (update_job s k f) = st_db_service s"
  "active_connections (update_job s k f) = active_connections s"
  "uuid_calls (update_job s k f) = uuid_calls s"
  by (simp_all add: update_job_def split: option.splits)

lemma update_job_known [simp]:
  "active_jobs s k = Some j \<Longrightarrow> active_jobs (update_job s k f) k = Some (f j)"
  by (simp add: update_job_def)

lemma update_job_db [simp]:
  "active_jobs (update_job s k f\<lparr>st_db_service := d\<rparr>) = active_jobs (update_job s k f)"
  by simp

text \<open>The entries of the job along a successful run and along a failed one.\<close>

lemma job_history_completed:
  assumes "active_jobs s job_id = Some j0" and "st_crawler_manager s = Some cm"
  shows "run_escaped (run_search_job dumps start_time now s job_id request) = None"
    and "job_history job_id (run_states (run_search_job dumps start_time now s job_id request))
         = (let r = search_all_platforms cm request;
                j1 = j0\<lparr>job_status := ''running''\<rparr>;
                j3 = j1\<lparr>job_results := r\<rparr>;
                j4 = j3\<lparr>job_status := ''completed''\<rparr>;
                j5 = j4\<lparr>job_progress := 100\<rparr>;
                j6 = j5\<lparr>job_completed_platforms := length (get_available_platforms cm)\<rparr>;
                j7 = j6\<lparr>job_completed_at := Some now\<rparr>;
                j8 = j7\<lparr>job_execution_time := Some (real (now - start_time))\<rparr>
            in [j1, j1, j3, j4, j5, j6, j7, j8])"
  using assms
  by (simp_all add: run_search_job_def job_history_def Let_def
      split: option.splits)

lemma job_history_failed:
  assumes "active_jobs s job_id = Some j0" and "st_crawler_manager s = None"
  shows "run_escaped (run_search_job dumps start_time now s job_id request) = None"
    and "job_history job_id (run_states (run_search_job dumps start_time now s job_id request))
         = (let j1 = j0\<lparr>job_status := ''running''\<rparr>;
                f1 = j1\<lparr>job_status := ''failed''\<rparr>;
                f2 = f1\<lparr>job_error :=
                       Some ''AttributeError: NoneType object has no attribute search_all_platforms''\<rparr>;
                f3 = f2\<lparr>job_execution_time := Some (real (now - start_time))\<rparr>
            in [j1, f1, f2, f3])"
  using assms
  by (simp_all add: run_search_job_def job_history_def Let_def)


text \<open>
  C1: with N adapters of which exactly one raises while the others return lists, the fan-out
  returns the concatenation of the others' lists in dispatch order; the background job runs
  to the end with no exception escaping, its entry ends in state \<open>completed\<close> holding that
  concatenation, and the job's result reports as total the sum of the surviving adapters'
  counts.
\<close>

theorem failure_isolation:
  assumes "map (\<lambda>(platform, crawler). crawler (request_params request)) (crawlers cm)
             = map (\<lambda>l. Return (PyList l)) before @ [Raise e] @ map (\<lambda>l. Return (PyList l)) after"
    and "st_crawler_manager s = Some cm"
    and "active_jobs s job_id = Some j0"
    and "run = run_search_job dumps start_time now s job_id request"
  shows "length (crawlers cm) = length before + 1 + length after
         \<and> search_all_platforms cm request = concat before @ concat after
         \<and> run_escaped run = None
         \<and> (\<exists>j. active_jobs (last (run_states run)) job_id = Some j
                \<and> job_status j = ''completed''
                \<and> job_results j = concat before @ concat after)
         \<and> (\<exists>jr. get_job_results later (last (run_states run)) job_id = Inr jr
                \<and> jr_results jr = concat before @ concat after
                \<and> jr_total_results jr = sum_list (map length before) + sum_list (map length after))"
proof -
  have n: "length (crawlers cm) = length before + 1 + length after"
    using arg_cong [OF assms(1), of length] by simp
  have r: "search_all_platforms cm request = concat before @ concat after"
    by (rule search_all_platforms_isolates [OF assms(1)])
  have final: "active_jobs (last (run_states run)) job_id
      = Some (j0\<lparr>job_status := ''completed'', job_progress := 100,
                  job_completed_platforms := length (get_available_platforms cm),
                  job_results := concat before @ concat after,
                  job_completed_at := Some now,
                  job_execution_time := Some (real (now - start_time))\<rparr>)"
    using assms(2,3) unfolding assms(4)
    by (simp add: run_search_job_def Let_def r split: option.splits)
  have esc: "run_escaped run = None"
    using assms(2,3) unfolding assms(4) by (simp add: run_search_job_def Let_def)
  from n r esc final show ?thesis
    by (simp add: get_job_results_def length_concat)
qed


theorem failure_isolation_witness:
  "length (crawlers three_adapters) = 3
   \<and> search_all_platforms three_adapters grand_hotel_request = results_A @ results_C
   \<and> (\<exists>j. active_jobs (last (run_states (run_search_job json_dumps 4000 4010 searching ''job-0''
                grand_hotel_request))) ''job-0'' = Some j
          \<and> job_status j = ''completed'' \<and> job_results j = results_A @ results_C)
   \<and> (\<exists>jr. get_job_results 4020 (last (run_states (run_search_job json_dumps 4000 4010
                searching ''job-0'' grand_hotel_request))) ''job-0'' = Inr jr
          \<and> jr_total_results jr = 3)"
proof -
  have a: "map (\<lambda>(platform, crawler). crawler (request_params grand_hotel_request))
             (crawlers three_adapters)
           = map (\<lambda>l. Return (PyList l)) [results_A] @ [Raise ''TimeoutError'']
               @ map (\<lambda>l. Return (PyList l)) [results_C]"
    by (simp add: three_adapters_def)
  have b: "st_crawler_manager searching = Some three_adapters"
    by (simp add: searching_def warm_def startup_def)
  have c: "active_jobs searching ''job-0'' = Some pending_job"
    by (simp add: searching_def)
  have d: "length results_A + length results_C = 3"
    by (simp add: results_A_def results_C_def)
  have e: "length (crawlers three_adapters) = 3"
    by (simp add: three_adapters_def)
  from failure_isolation [OF a b c refl, of json_dumps 4000 4010 4020] show ?thesis
    by (auto simp: d e)
qed

lemma job_lifecycle_completed:
  assumes "active_jobs s job_id = Some j0" and "st_crawler_manager s = Some cm"
    and "job_progress j0 = 0"
    and "h = j0 # job_history job_id (run_states (run_search_job dumps start_time now s job_id request))"
  shows "sorted (map job_progress h)
         \<and> (\<forall>j \<in> set h. job_progress j = 100 \<longrightarrow> job_status j = ''completed'')
         \<and> job_status (last h) = ''completed'' \<and> job_progress (last h) = 100"
  unfolding assms(4) job_history_completed(2) [OF assms(1,2)]
  using assms(3) by (simp add: Let_def)

lemma job_lifecycle_failed:
  assumes "active_jobs s job_id = Some j0" and "st_crawler_manager s = None"
    and "job_progress j0 = 0"
    and "h = j0 # job_history job_id (run_states (run_search_job dumps start_time now s job_id request))"
  shows "sorted (map job_progress h)
         \<and> (\<forall>j \<in> set h. job_progress j = 100 \<longrightarrow> job_status j = ''completed'')
         \<and> job_status (last h) = ''failed'' \<and> job_progress (last h) = 0"
  unfolding assms(4) job_history_failed(2) [OF assms(1,2)]
  using assms(3) by (simp add: Let_def)

text \<open>
  C5: take a job as \<open>search_properties\<close> creates it (pending, progress 0) and follow its
  entry through every write of the background task. The progress starts at 0 and never
  decreases; whenever it is 100 the state is \<open>completed\<close>; and the task ends either
  completed with progress 100 or failed with progress 0.
\<close>

theorem progress_monotone:
  assumes "active_jobs s job_id = Some j0"
    and "job_status j0 = ''pending''"
    and "job_progress j0 = 0"
    and "h = j0 # job_history job_id
                    (run_states (run_search_job dumps start_time now s job_id request))"
  shows "job_progress (hd h) = 0
         \<and> sorted (map job_progress h)
         \<and> (\<forall>j \<in> set h. job_progress j = 100 \<longrightarrow> job_status j = ''completed'')
         \<and> (job_status (last h) = ''completed'' \<and> job_progress (last h) = 100
            \<or> job_status (last h) = ''failed'' \<and> job_progress (last h) = 0)"
proof (cases "st_crawler_manager s")
  case None
  from job_lifecycle_failed [OF assms(1) None assms(3,4)] assms(3,4) show ?thesis
    by simp
next
  case (Some cm)
  from job_lifecycle_completed [OF assms(1) Some assms(3,4)] assms(3,4) show ?thesis
    by simp
qed

theorem progress_monotone_witness:
  "job_progress (hd (pending_job # job_history ''job-0''
        (run_states (run_search_job json_dumps 4000 4010 searching ''job-0'' grand_hotel_request))))
     = 0
   \<and> sorted (map job_progress (pending_job # job_history ''job-0''
        (run_states (run_search_job json_dumps 4000 4010 searching ''job-0'' grand_hotel_request))))
   \<and> filter (\<lambda>j. job_progress j = 100 \<and> job_status j \<noteq> ''completed'')
        (pending_job # job_history ''job-0''
          (run_states (run_search_job json_dumps 4000 4010 searching ''job-0'' grand_hotel_request)))
      = []"
proof -
  have a: "active_jobs searching ''job-0'' = Some pending_job"
    by (simp add: searching_def)
  have b: "job_status pending_job = ''pending''" and c: "job_progress pending_job = 0"
    by (simp_all add: pending_job_def)
  from progress_monotone [OF a b c refl, of json_dumps 4000 4010 grand_hotel_request]
  show ?thesis
    unfolding filter_empty_conv by blast
qed

section \<open>Broadcast\<close>

lemma length_send_to_connections [simp]:
  "length (send_to_connections connections dumped) = length connections"
  by (induction connections) simp_all

lemma length_send_each:
  "length (send_each dumps connections job_id request results)
     = length results * length connections"
  by (induction results) simp_all

lemma broadcast_unknown_job:
  "active_jobs s job_id = None \<Longrightarrow> send_results_to_websockets dumps s job_id results = []"
  by (simp add: send_results_to_websockets_def)

text \<open>
  One send is attempted per record and connection; with the program's serialiser none of
  them goes out, in any state.
\<close>

lemma broadcast_attempts:
  "active_jobs s job_id = Some j \<Longrightarrow>
     length (send_results_to_websockets dumps s job_id results)
       = length results * length (active_connections s)"
  by (simp add: send_results_to_websockets_def length_send_each)

lemma nothing_sent_to_connections:
  "Sent i payload \<notin> set (send_to_connections connections (Inl e))"
  by (induction connections) simp_all

lemma nothing_sent_each:
  "Sent i payload \<notin> set (send_each json_dumps connections job_id request results)"
  by (induction results) (simp_all add: json_dumps_def nothing_sent_to_connections)

lemma nothing_sent:
  "Sent i payload \<notin> set (send_results_to_websockets json_dumps s job_id results)"
  by (simp add: send_results_to_websockets_def nothing_sent_each split: option.splits)

text \<open>
  C8 at a concrete input. Job job-0 is in the registry with one record to broadcast, and
  two open listeners are connected, the first opened for job-0 and the second for job-9. The
  broadcast builds the one update message and attempts it on both connections of the global
  list; each time the serialisation raises \<open>TypeError\<close> inside the \<open>try\<close> and is logged, so
  the listener of job-0 is sent nothing. The claim's delivery to every subscribed listener
  does not happen.
\<close>

theorem broadcast_delivers_nothing:
  "active_jobs (websocket_accept (websocket_accept searching own_listener) other_listener)
       ''job-0'' = Some pending_job
   \<and> active_connections (websocket_accept (websocket_accept searching own_listener) other_listener)
       = [own_listener, other_listener]
   \<and> ws_job_id own_listener = ''job-0'' \<and> ws_open own_listener
   \<and> ws_job_id other_listener = ''job-9'' \<and> ws_open other_listener
   \<and> send_results_to_websockets json_dumps
        (websocket_accept (websocket_accept searching own_listener) other_listener)
        ''job-0'' results_C
      = [SendFailed 4 ''TypeError: Object of type datetime is not JSON serializable'',
         SendFailed 7 ''TypeError: Object of type datetime is not JSON serializable'']"
  by (simp add: send_results_to_websockets_def websocket_accept_def searching_def warm_def
      startup_def own_listener_def other_listener_def results_C_def json_dumps_def)

end
